theory Spec2Isabelle
  imports Main "HOL-Library.Word"
begin

unbundle bit_operations_syntax

section \<open>Bytes, errors and Python values\<close>

text \<open>
  The decoder of \<^verbatim>\<open>src/ubxtool.py\<close> (class \<^verbatim>\<open>ubx\<close>) works on byte buffers.
  A byte is an 8-bit word; the Python integer \<^verbatim>\<open>c = int(this_byte)\<close> is \<open>uint\<close> of it.
  Python integers are unbounded and are modelled by \<open>int\<close>.
\<close>

type_synonym byte = "8 word"

text \<open>The exceptions that the modelled code can raise.\<close>

datatype error =
    NameError string
  | StructError
  | KeyError string
  | DecoderError string

section \<open>Checksum\<close>

text \<open>
  \<^verbatim>\<open>checksum(self, msg, m_len)\<close>: both sums run over \<^verbatim>\<open>msg[0:m_len]\<close> as unbounded
  integers and are masked with \<^verbatim>\<open>0xff\<close> once, in the return statement.
\<close>

fun checksum_loop :: "int \<Rightarrow> int \<Rightarrow> byte list \<Rightarrow> int \<times> int" where
  "checksum_loop ck_a ck_b [] = (ck_a, ck_b)"
| "checksum_loop ck_a ck_b (c # cs) = checksum_loop (ck_a + uint c) (ck_b + (ck_a + uint c)) cs"

definition checksum :: "byte list \<Rightarrow> nat \<Rightarrow> int \<times> int" where
  "checksum msg m_len =
     (case checksum_loop 0 0 (take m_len msg) of
        (ck_a, ck_b) \<Rightarrow> (ck_a AND 0xff, ck_b AND 0xff))"

text \<open>
  The checksum as the specification words it: both accumulators start at 0 and are
  reduced modulo 256 at every byte.
\<close>

definition spec_checksum_step :: "int \<times> int \<Rightarrow> byte \<Rightarrow> int \<times> int" where
  "spec_checksum_step acc c =
     (let ck_a = (fst acc + uint c) mod 256;
          ck_b = (snd acc + ck_a) mod 256
      in (ck_a, ck_b))"

definition spec_checksum :: "byte list \<Rightarrow> int \<times> int" where
  "spec_checksum bs = foldl spec_checksum_step (0, 0) bs"

section \<open>String formatting\<close>

text \<open>
  The conversions of Python's \<^verbatim>\<open>%\<close> operator and \<^verbatim>\<open>format\<close> that the decoder uses:
  \<^verbatim>\<open>%d\<close>, \<^verbatim>\<open>%u\<close> and \<^verbatim>\<open>%s\<close> of an integer (decimal), \<^verbatim>\<open>%#x\<close> (hexadecimal with the
  prefix \<^verbatim>\<open>0x\<close>) and \<^verbatim>\<open>%02x\<close> (hexadecimal, zero-padded to two digits).
\<close>

definition digit_char :: "nat \<Rightarrow> char" where
  "digit_char d = ''0123456789abcdef'' ! d"

fun dec_nat :: "nat \<Rightarrow> string" where
  "dec_nat n = (if n < 10 then [digit_char n] else dec_nat (n div 10) @ [digit_char (n mod 10)])"

fun hex_nat :: "nat \<Rightarrow> string" where
  "hex_nat n = (if n < 16 then [digit_char n] else hex_nat (n div 16) @ [digit_char (n mod 16)])"

declare dec_nat.simps [simp del] hex_nat.simps [simp del]

definition fmt_d :: "int \<Rightarrow> string" where
  "fmt_d v = (if v < 0 then ''-'' @ dec_nat (nat (- v)) else dec_nat (nat v))"

definition fmt_hash_x :: "int \<Rightarrow> string" where
  "fmt_hash_x v = (if v < 0 then ''-0x'' @ hex_nat (nat (- v)) else ''0x'' @ hex_nat (nat v))"

definition fmt_02x :: "int \<Rightarrow> string" where
  "fmt_02x v =
     (let h = (if v < 0 then ''-'' @ hex_nat (nat (- v)) else hex_nat (nat v))
      in replicate (2 - length h) (CHR ''0'') @ h)"

fun join :: "string \<Rightarrow> string list \<Rightarrow> string" where
  "join sep [] = []"
| "join sep [x] = x"
| "join sep (x # y # ys) = x @ sep @ join sep (y # ys)"

section \<open>Python values returned by the payload decoders\<close>

text \<open>
  A payload decoder returns a string or a dictionary of named fields. Floating-point
  results are kept as the expression that the code evaluates (the IEEE operations are
  not carried out): \<open>FOfInt\<close> is the conversion of an integer operand, \<open>FLit m e\<close> the
  literal \<open>m\<close>E\<open>e\<close>, \<open>FRound x n\<close> the call \<^verbatim>\<open>round(x, n)\<close>.
\<close>

datatype pyfloat =
    FLit int int
  | FOfInt int
  | FAdd pyfloat pyfloat
  | FMul pyfloat pyfloat
  | FRound pyfloat nat

datatype pyval =
    PInt int
  | PFloat pyfloat
  | PStr string
  | PBool bool
  | PNone
  | PDict "(string \<times> pyval) list"

text \<open>
  A dictionary is an association list in insertion order; \<^verbatim>\<open>d[k] = v\<close> replaces the
  value of an existing key in place and appends a new key.
\<close>

fun dset :: "(string \<times> pyval) list \<Rightarrow> string \<Rightarrow> pyval \<Rightarrow> (string \<times> pyval) list" where
  "dset [] k v = [(k, v)]"
| "dset ((k', v') # d) k v = (if k' = k then (k, v) # d else (k', v') # dset d k v)"

definition dget :: "(string \<times> pyval) list \<Rightarrow> string \<Rightarrow> pyval option" where
  "dget d k = map_of d k"

text \<open>\<^verbatim>\<open>int * float\<close> and \<^verbatim>\<open>int + float\<close> convert the integer operand first.\<close>

definition int_times_float :: "int \<Rightarrow> pyfloat \<Rightarrow> pyfloat" where
  "int_times_float i f = FMul (FOfInt i) f"

definition int_plus_float :: "int \<Rightarrow> pyfloat \<Rightarrow> pyfloat" where
  "int_plus_float i f = FAdd (FOfInt i) f"

section \<open>Unpacking binary fields\<close>

text \<open>
  \<^verbatim>\<open>struct.unpack_from('<...', buf, offset)\<close>: little-endian, standard sizes, no
  padding. It raises \<^verbatim>\<open>struct.error\<close> when fewer bytes than the format needs are left
  after the offset.
\<close>

datatype fmt = FB | Fb | FH | Fh | FL | Fl

fun fmt_size :: "fmt \<Rightarrow> nat" where
  "fmt_size FB = 1" | "fmt_size Fb = 1"
| "fmt_size FH = 2" | "fmt_size Fh = 2"
| "fmt_size FL = 4" | "fmt_size Fl = 4"

fun fmt_signed :: "fmt \<Rightarrow> bool" where
  "fmt_signed FB = False" | "fmt_signed Fb = True"
| "fmt_signed FH = False" | "fmt_signed Fh = True"
| "fmt_signed FL = False" | "fmt_signed Fl = True"

fun le_uint :: "byte list \<Rightarrow> int" where
  "le_uint [] = 0"
| "le_uint (b # bs) = uint b + 256 * le_uint bs"

definition field_value :: "fmt \<Rightarrow> byte list \<Rightarrow> int" where
  "field_value f bs =
     (let v = le_uint bs in
      if fmt_signed f \<and> 2 ^ (8 * fmt_size f - 1) \<le> v then v - 2 ^ (8 * fmt_size f) else v)"

fun unpack_fields :: "fmt list \<Rightarrow> byte list \<Rightarrow> int list" where
  "unpack_fields [] bs = []"
| "unpack_fields (f # fs) bs =
     field_value f (take (fmt_size f) bs) # unpack_fields fs (drop (fmt_size f) bs)"

definition calcsize :: "fmt list \<Rightarrow> nat" where
  "calcsize fs = sum_list (map fmt_size fs)"

definition unpack_from :: "fmt list \<Rightarrow> byte list \<Rightarrow> nat \<Rightarrow> error + int list" where
  "unpack_from fs buf offset =
     (if length buf < offset + calcsize fs then Inl StructError
      else Inr (unpack_fields fs (drop offset buf)))"

section \<open>Payload decoders\<close>

text \<open>
  A sequence of assignments \<^verbatim>\<open>d[k] = v\<close>, in program order. The values read back from
  the dictionary by later assignments are named by \<open>let\<close> where they were unpacked.
\<close>

definition dset_all :: "(string \<times> pyval) list \<Rightarrow> (string \<times> pyval) list \<Rightarrow> (string \<times> pyval) list" where
  "dset_all d kvs = foldl (\<lambda>d kv. dset d (fst kv) (snd kv)) d kvs"

definition truthy :: "int \<Rightarrow> pyval" where
  "truthy v = PBool (v \<noteq> 0)"

text \<open>
  \<^verbatim>\<open>nav_hpposllh(self, buf)\<close>, the decoder of UBX-NAV-HPPOSLLH. The format string is
  \<^verbatim>\<open><BBBBLllllbbbbLL\<close>; the second to fourth values go to \<^verbatim>\<open>_\<close>.
\<close>

definition hpposllh_fmt :: "fmt list" where
  "hpposllh_fmt = [FB, FB, FB, FB, FL, Fl, Fl, Fl, Fl, Fb, Fb, Fb, Fb, FL, FL]"

definition nav_hpposllh :: "byte list \<Rightarrow> error + pyval" where
  "nav_hpposllh buf =
     (let m_len = int (length buf) in
      if 0 = m_len then Inr (PStr '' Poll request'')
      else if 36 > m_len then Inr (PStr ('' Bad Length '' @ fmt_d m_len))
      else
        (case unpack_from hpposllh_fmt buf 0 of
           Inl e \<Rightarrow> Inl e
         | Inr u \<Rightarrow>
            (let lon = u ! 5; lat = u ! 6; height = u ! 7; hMSL = u ! 8;
                 lonHp = u ! 9; latHp = u ! 10; heightHp = u ! 11; hMSLHp = u ! 12
             in Inr (PDict (dset_all []
               [(''version'', PInt (u ! 0)), (''iTow'', PInt (u ! 4)),
                (''lon'', PInt lon), (''lat'', PInt lat),
                (''height'', PInt height), (''hMSL'', PInt hMSL),
                (''lonHp'', PInt lonHp), (''latHp'', PInt latHp),
                (''heightHp'', PInt heightHp), (''hMSLHp'', PInt hMSLHp),
                (''hAcc'', PInt (u ! 13)), (''vAcc'', PInt (u ! 14)),
                (''prec_lon'', PFloat (FRound (FMul
                    (int_plus_float lon (int_times_float lonHp (FLit 1 (- 2)))) (FLit 1 (- 7))) 9)),
                (''prec_lat'', PFloat (FRound (FMul
                    (int_plus_float lat (int_times_float latHp (FLit 1 (- 2)))) (FLit 1 (- 7))) 9)),
                (''prec_height'', PFloat (FRound (FMul
                    (int_plus_float height (int_times_float heightHp (FLit 1 (- 1)))) (FLit 1 (- 3))) 4)),
                (''prec_hMSL'', PFloat (FRound (FMul
                    (int_plus_float hMSL (int_times_float hMSLHp (FLit 1 (- 1)))) (FLit 1 (- 3))) 4))
               ])))))"

text \<open>
  \<^verbatim>\<open>nav_pvt(self, buf)\<close>, the decoder of UBX-NAV-PVT. The format string is
  \<^verbatim>\<open><LHBBBBBBLlBBBBllllLLlllllLLHHHH\<close>; the last two values go to \<^verbatim>\<open>_\<close>. The
  assignments come in three blocks, in program order: the unpacked fields, the scaled
  values (which overwrite the raw ones), and the flags. \<^verbatim>\<open>carrSoln\<close> is assigned twice, and the three
  \<^verbatim>\<open>confirmed\<close> fields are computed from \<^verbatim>\<open>pvt_data['flags']\<close>.
\<close>

definition fix_type :: "(string \<times> string) list" where
  "fix_type =
     [(''0'', ''no fix''), (''1'', ''dead reckoning only''), (''2'', ''2D-fix''),
      (''3'', ''3D-fix''), (''4'', ''GNSS + dead reckoning combined''),
      (''5'', ''time only fix'')]"

definition scaled :: "int \<Rightarrow> int \<Rightarrow> nat \<Rightarrow> pyval" where
  "scaled v e n = PFloat (FRound (int_times_float v (FLit 1 e)) n)"

definition nav_pvt_v15 :: "byte list \<Rightarrow> (string \<times> pyval) list \<Rightarrow> error + pyval" where
  "nav_pvt_v15 buf pvt_data =
     (if 92 \<le> int (length buf) then
        (case unpack_from [Fl, Fh, FH] buf 81 of
           Inl e \<Rightarrow> Inl e
         | Inr u \<Rightarrow> Inr (PDict (dset_all pvt_data
             [(''headVeh'', PInt (u ! 0)), (''magDec'', PInt (u ! 1)), (''magAcc'', PInt (u ! 2)),
              (''headVeh'', scaled (u ! 0) (- 5) 5),
              (''magDec'', scaled (u ! 1) (- 2) 2),
              (''magAcc'', scaled (u ! 2) (- 2) 2)])))
      else Inr (PDict pvt_data))"

definition pvt_fmt :: "fmt list" where
  "pvt_fmt =
     [FL, FH, FB, FB, FB, FB, FB, FB, FL, Fl, FB, FB, FB, FB, Fl, Fl, Fl, Fl, FL, FL,
      Fl, Fl, Fl, Fl, Fl, FL, FL, FH, FH, FH, FH]"

definition pvt_raw_fields :: "int list \<Rightarrow> (string \<times> pyval) list" where
  "pvt_raw_fields u =
     [(''iTow'', PInt (u ! 0)), (''year'', PInt (u ! 1)), (''month'', PInt (u ! 2)),
      (''day'', PInt (u ! 3)), (''hour'', PInt (u ! 4)), (''minute'', PInt (u ! 5)),
      (''second'', PInt (u ! 6)), (''valid'', PInt (u ! 7)), (''tAcc'', PInt (u ! 8)),
      (''nano'', PInt (u ! 9)), (''fixType'', PInt (u ! 10)), (''flags'', PInt (u ! 11)),
      (''flags2'', PInt (u ! 12)), (''numSV'', PInt (u ! 13)), (''lon'', PInt (u ! 14)),
      (''lat'', PInt (u ! 15)), (''height'', PInt (u ! 16)), (''hMSL'', PInt (u ! 17)),
      (''hAcc'', PInt (u ! 18)), (''vAcc'', PInt (u ! 19)), (''velN'', PInt (u ! 20)),
      (''velE'', PInt (u ! 21)), (''velD'', PInt (u ! 22)), (''gSpeed'', PInt (u ! 23)),
      (''headMot'', PInt (u ! 24)), (''sAcc'', PInt (u ! 25)), (''headAcc'', PInt (u ! 26)),
      (''pDOP'', PInt (u ! 27)), (''reserved1'', PInt (u ! 28))]"

definition pvt_scaled_fields :: "int list \<Rightarrow> (string \<times> pyval) list" where
  "pvt_scaled_fields u =
     (let fixType = u ! 10; lon = u ! 14; lat = u ! 15; height = u ! 16; hMSL = u ! 17;
          hAcc = u ! 18; vAcc = u ! 19; velN = u ! 20; velE = u ! 21; velD = u ! 22;
          gSpeed = u ! 23; headMot = u ! 24; sAcc = u ! 25; headAcc = u ! 26; pDOP = u ! 27
      in [(''lon'', scaled lon (- 7) 7),
          (''lat'', scaled lat (- 7) 7),
          (''height'', scaled height (- 3) 3),
          (''hMSL'', scaled hMSL (- 3) 3),
          (''hAcc'', scaled hAcc (- 3) 3),
          (''vAcc'', scaled vAcc (- 3) 3),
          (''velN'', scaled velN (- 3) 3),
          (''velE'', scaled velE (- 3) 3),
          (''velD'', scaled velD (- 3) 3),
          (''gSpeed'', scaled gSpeed (- 3) 3),
          (''sAcc'', scaled sAcc (- 3) 3),
          (''headMot'', scaled headMot (- 5) 5),
          (''headAcc'', scaled headAcc (- 5) 5),
          (''pDOP'', scaled pDOP (- 2) 2),
          (''fixeType_str'',
             (case map_of fix_type (fmt_d fixType) of None \<Rightarrow> PNone | Some t \<Rightarrow> PStr t))])"

definition pvt_flag_fields :: "int list \<Rightarrow> (string \<times> pyval) list" where
  "pvt_flag_fields u =
     (let valid = u ! 7; flags = u ! 11 in
      [(''validDate'', truthy (valid AND 1)),
       (''validTime'', truthy (valid AND 2)),
       (''fullyResolved'', truthy (valid AND 4)),
       (''validMAg'', truthy (valid AND 8)),
       (''gnssFixOK'', truthy (flags AND 1)),
       (''diffSoln'', truthy (flags AND 2)),
       (''headVehValid'', truthy (flags AND 32)),
       (''carrSoln'', if flags AND 64 \<noteq> 0 then PStr ''Float'' else PBool False),
       (''carrSoln'', if flags AND 128 \<noteq> 0 then PStr ''Fixed'' else PBool False),
       (''confirmedAvai'', truthy (flags AND 32)),
       (''confirmedDate'', truthy (flags AND 64)),
       (''confirmedTime'', truthy (flags AND 128))])"

definition nav_pvt :: "byte list \<Rightarrow> error + pyval" where
  "nav_pvt buf =
     (let m_len = int (length buf) in
      if 0 = m_len then Inr (PStr '' Poll request'')
      else if 84 > m_len then Inr (PStr ('' Bad Length '' @ fmt_d m_len))
      else
        (case unpack_from pvt_fmt buf 0 of
           Inl e \<Rightarrow> Inl e
         | Inr u \<Rightarrow>
             nav_pvt_v15 buf
               (dset_all [] (pvt_raw_fields u @ pvt_scaled_fields u @ pvt_flag_fields u))))"

text \<open>Reading one field of a decoder's result, when the result is a dictionary.\<close>

definition field_of :: "error + pyval \<Rightarrow> string \<Rightarrow> pyval option" where
  "field_of r k = (case r of Inr (PDict d) \<Rightarrow> dget d k | _ \<Rightarrow> None)"

text \<open>
  The fields as the interface description names them: the signed 32-bit little-endian
  integer at an offset, the signed 8-bit integer at an offset, and the scaling formula
  \<^verbatim>\<open>round((coarse + hp*1e-2)*1e-7, 9)\<close>.
\<close>

definition s32_le_at :: "byte list \<Rightarrow> nat \<Rightarrow> int" where
  "s32_le_at buf off = sint (word_rcat (rev (take 4 (drop off buf))) :: 32 word)"

definition s8_at :: "byte list \<Rightarrow> nat \<Rightarrow> int" where
  "s8_at buf off = sint (buf ! off)"

definition hp_degrees :: "int \<Rightarrow> int \<Rightarrow> pyfloat" where
  "hp_degrees coarse hp =
     FRound (FMul (FAdd (FOfInt coarse) (FMul (FOfInt hp) (FLit 1 (- 2)))) (FLit 1 (- 7))) 9"

text \<open>
  A payload whose longitude field holds -741234567 (bytes 79 a8 d1 d3 at offset 8) and
  whose high-precision longitude field holds 23 (offset 24).
\<close>

definition hp_example :: "byte list" where
  "hp_example = [0, 0, 0, 0, 0, 0, 0, 0, 0x79, 0xa8, 0xd1, 0xd3, 0, 0, 0, 0,
     0, 0, 0, 0, 0, 0, 0, 0, 23, 0, 0, 0, 0, 0, 0, 0, 0, 0, 0, 0]"

text \<open>
  An 84-byte UBX-NAV-PVT payload whose \<^verbatim>\<open>flags\<close> byte (offset 21) is 0 and whose
  \<^verbatim>\<open>flags2\<close> byte (offset 22) is 0xE0, and one with \<^verbatim>\<open>flags\<close> = 0x40 (carrier solution
  float) and \<^verbatim>\<open>flags2\<close> = 0.
\<close>

definition pvt_example :: "byte list" where
  "pvt_example = replicate 22 0 @ [0xE0] @ replicate 61 0"

definition pvt_float_example :: "byte list" where
  "pvt_float_example = replicate 21 0 @ [0x40] @ replicate 62 0"

section \<open>Configuration registry\<close>

text \<open>
  The tuple \<^verbatim>\<open>cfgs\<close> of the class: one entry per configuration item, holding name, key,
  value type, scale, unit and description. The scale is written in the source as an
  integer, as a floating-point literal (kept as its text) or, in a few entries, as a
  string. The 640 entries are given in source order, forty to a definition.
\<close>

datatype scale = ScaleInt int | ScaleFloat string | ScaleStr string

type_synonym cfg_item = "string \<times> int \<times> string \<times> scale \<times> string \<times> string"

definition cfgs_part1 :: "cfg_item list" where
  "cfgs_part1 = [
    (''CFG-GEOFENCE-CONFLVL'', 0x20240011, ''E1'', ScaleInt 1, '''',
      ''Required confidence level for state evaluation''),
    (''CFG-GEOFENCE-USE_PIO'', 0x10240012, ''L'', ScaleInt 1, '''',
      ''Use PIO combined fence state output''),
    (''CFG-GEOFENCE-PINPOL'', 0x20240013, ''E1'', ScaleInt 1, '''',
      ''PIO pin polarity''),
    (''CFG-GEOFENCE-PIN'', 0x20240014, ''U1'', ScaleInt 1, '''',
      ''PIO pin number''),
    (''CFG-GEOFENCE-USE_FENCE1'', 0x10240020, ''L'', ScaleInt 1, '''',
      ''Use first geofence''),
    (''CFG-GEOFENCE-FENCE1_LAT'', 0x40240021, ''I4'', ScaleFloat ''1e-7'', ''deg'',
      ''Latitude of the first geofence circle center''),
    (''CFG-GEOFENCE-FENCE1_LON'', 0x40240022, ''I4'', ScaleFloat ''1e-7'', ''deg'',
      ''Longitude of the first geofence circle center''),
    (''CFG-GEOFENCE-FENCE1_RAD'', 0x40240023, ''U4'', ScaleFloat ''0.01'', ''m'',
      ''Radius of the first geofence circle''),
    (''CFG-GEOFENCE-USE_FENCE2'', 0x10240030, ''L'', ScaleInt 1, '''',
      ''Use second geofence''),
    (''CFG-GEOFENCE-FENCE2_LAT'', 0x40240031, ''I4'', ScaleFloat ''1e-7'', ''deg'',
      ''Latitude of the second geofence circle center''),
    (''CFG-GEOFENCE-FENCE2_LON'', 0x40240032, ''I4'', ScaleFloat ''1e-7'', ''deg'',
      ''Longitude of the second geofence circle center''),
    (''CFG-GEOFENCE-FENCE2_RAD'', 0x40240033, ''U4'', ScaleFloat ''0.01'', ''m'',
      ''Radius of the second geofence circle''),
    (''CFG-GEOFENCE-USE_FENCE3'', 0x10240040, ''L'', ScaleInt 1, '''',
      ''Use third geofence''),
    (''CFG-GEOFENCE-FENCE3_LAT'', 0x40240041, ''I4'', ScaleFloat ''1e-7'', ''deg'',
      ''Latitude of the third geofence circle center''),
    (''CFG-GEOFENCE-FENCE3_LON'', 0x40240042, ''I4'', ScaleFloat ''1e-7'', ''deg'',
      ''Longitude of the third geofence circle center''),
    (''CFG-GEOFENCE-FENCE3_RAD'', 0x40240043, ''U4'', ScaleFloat ''0.01'', ''m'',
      ''Radius of the third geofence circle''),
    (''CFG-GEOFENCE-USE_FENCE4'', 0x10240050, ''L'', ScaleInt 1, '''',
      ''Use fourth geofence''),
    (''CFG-GEOFENCE-FENCE4_LAT'', 0x40240051, ''I4'', ScaleFloat ''1e-7'', ''deg'',
      ''Latitude of the fourth geofence circle center''),
    (''CFG-GEOFENCE-FENCE4_LON'', 0x40240052, ''I4'', ScaleFloat ''1e-7'', ''deg'',
      ''Longitude of the fourth geofence circle center''),
    (''CFG-GEOFENCE-FENCE4_RAD'', 0x40240053, ''U4'', ScaleFloat ''0.01'', ''m'',
      ''Radius of the fourth geofence circle''),
    (''CFG-HW-ANT_CFG_VOLTCTRL'', 0x10A3002E, ''L'', ScaleInt 1, '''',
      ''Active antenna voltage control flag''),
    (''CFG-HW-ANT_CFG_SHORTDET'', 0x10A3002F, ''L'', ScaleInt 1, '''',
      ''Short antenna detection flag''),
    (''CFG-HW-ANT_CFG_SHORTDET_POL'', 0x10A30030, ''L'', ScaleInt 1, '''',
      ''Short antenna detection polarity''),
    (''CFG-HW-ANT_CFG_OPENDET'', 0x10A30031, ''L'', ScaleInt 1, '''',
      ''Open antenna detection flag''),
    (''CFG-HW-ANT_CFG_OPENDET_POL'', 0x10A30032, ''L'', ScaleInt 1, '''',
      ''Open antenna detection polarity''),
    (''CFG-HW-ANT_CFG_PWRDOWN'', 0x10A30033, ''L'', ScaleInt 1, '''',
      ''Power down antenna flag''),
    (''CFG-HW-ANT_CFG_PWRDOWN_POL'', 0x10A30034, ''L'', ScaleInt 1, '''',
      ''Power down antenna logic polarity''),
    (''CFG-HW-ANT_CFG_RECOVER'', 0x10A30035, ''L'', ScaleInt 1, '''',
      ''Automatic recovery from short state flag''),
    (''CFG-HW-ANT_SUP_SWITCH_PIN'', 0x20A30036, ''U1'', ScaleInt 1, '''',
      ''ANT1 PIO number''),
    (''CFG-HW-ANT_SUP_SHORT_PIN'', 0x20A30037, ''U1'', ScaleInt 1, '''',
      ''ANT0 PIO number''),
    (''CFG-HW-ANT_SUP_OPEN_PIN'', 0x20A30038, ''U1'', ScaleInt 1, '''',
      ''ANT2 PIO number''),
    (''CFG-I2C-ADDRESS'', 0x20510001, ''U1'', ScaleInt 1, '''',
      ''I2C slave address of the receiver''),
    (''CFG-I2C-EXTENDEDTIMEOUT'', 0x10510002, ''L'', ScaleInt 1, '''',
      ''Flag to disable timeouting the interface after 1.5 s''),
    (''CFG-I2C-ENABLED'', 0x10510003, ''L'', ScaleInt 1, '''',
      ''Flag to indicate if the I2C interface should be enabled''),
    (''CFG-I2CINPROT-UBX'', 0x10710001, ''L'', ScaleInt 1, '''',
      ''Flag to indicate if UBX should be an input on I2C''),
    (''CFG-I2CINPROT-NMEA'', 0x10710002, ''L'', ScaleInt 1, '''',
      ''Flag to indicate if NMEA should be an input on I2C''),
    (''CFG-I2CINPROT-RTCM2X'', 0x10710003, ''L'', ScaleInt 1, '''',
      ''Flag to indicate if RTCM2X should be an input on I2C''),
    (''CFG-I2CINPROT-RTCM3X'', 0x10710004, ''L'', ScaleInt 1, '''',
      ''Flag to indicate if RTCM3X should be input on I2C''),
    (''CFG-I2COUTPROT-UBX'', 0x10720001, ''L'', ScaleInt 1, '''',
      ''Flag to indicate if UBX should be an output on I2C''),
    (''CFG-I2COUTPROT-NMEA'', 0x10720002, ''L'', ScaleInt 1, '''',
      ''Flag to indicate if NMEA should be an output on I2C'')]"

definition cfgs_part2 :: "cfg_item list" where
  "cfgs_part2 = [
    (''CFG-I2COUTPROT-RTCM3X'', 0x10720004, ''L'', ScaleInt 1, '''',
      ''Flag to indicate if RTCM3X should be an output on I2C''),
    (''CFG-INFMSG-UBX_I2C'', 0x20920001, ''X1'', ScaleInt 1, '''',
      ''Information message enable flags for UBX protocol on I2C''),
    (''CFG-INFMSG-UBX_UART1'', 0x20920002, ''X1'', ScaleInt 1, '''',
      ''Information message enable flags for UBX protocol on UART1''),
    (''CFG-INFMSG-UBX_UART2'', 0x20920003, ''X1'', ScaleInt 1, '''',
      ''Information message enable flags for UBX protocol on UART2''),
    (''CFG-INFMSG-UBX_USB'', 0x20920004, ''X1'', ScaleInt 1, '''',
      ''Information message enable flags for UBX protocol on USB''),
    (''CFG-INFMSG-UBX_SPI'', 0x20920005, ''X1'', ScaleInt 1, '''',
      ''Information message enable flags for UBX protocol on SPI''),
    (''CFG-INFMSG-NMEA_I2C'', 0x20920006, ''X1'', ScaleInt 1, '''',
      ''Information message enable flags for NMEA protocol on I2C''),
    (''CFG-INFMSG-NMEA_UART1'', 0x20920007, ''X1'', ScaleInt 1, '''',
      ''Information message enable flags for NMEA protocol on UART1''),
    (''CFG-INFMSG-NMEA_UART2'', 0x20920008, ''X1'', ScaleInt 1, '''',
      ''Information message enable flags for NMEA protocol on UART2''),
    (''CFG-INFMSG-NMEA_USB'', 0x20920009, ''X1'', ScaleInt 1, '''',
      ''Information message enable flags for NMEA protocol on USB''),
    (''CFG-INFMSG-NMEA_SPI'', 0x2092000A, ''X1'', ScaleInt 1, '''',
      ''Information message enable flags for NMEA protocol on SPI''),
    (''CFG-ITFM-BBTHRESHOLD'', 0x20410001, ''U1'', ScaleInt 1, '''',
      ''Broadband jamming detection threshold''),
    (''CFG-ITFM-CWTHRESHOLD'', 0x20410002, ''U1'', ScaleInt 1, '''',
      ''CW jamming detection threshold''),
    (''CFG-ITFM-ENABLE'', 0x1041000D, ''L'', ScaleInt 1, '''',
      ''Enable interference detection''),
    (''CFG-ITFM-ANTSETTING'', 0x20410010, ''E1'', ScaleInt 1, '''',
      ''Antenna setting''),
    (''CFG-ITFM-ENABLE_AUX'', 0x10410013, ''L'', ScaleInt 1, '''',
      ''Set to true to scan auxiliary bands''),
    (''CFG-LOGFILTER-RECORD_ENA'', 0x10DE0002, ''L'', ScaleInt 1, '''',
      ''Recording enabled''),
    (''CFG-LOGFILTER-ONCE_PER_WAKE_UP_ENA'', 0x10DE0003, ''L'', ScaleInt 1, '''',
      ''Once per wakeup''),
    (''CFG-LOGFILTER-APPLY_ALL_FILTERS'', 0x10DE0004, ''L'', ScaleInt 1, '''',
      ''Apply all filter settings''),
    (''CFG-LOGFILTER-MIN_INTERVAL'', 0x30DE0005, ''U2'', ScaleInt 1, ''s'',
      ''Minimum time interval between logged positions''),
    (''CFG-LOGFILTER-TIME_THRS'', 0x30DE0006, ''U2'', ScaleInt 1, ''s'',
      ''Time threshold''),
    (''CFG-LOGFILTER-SPEED_THRS'', 0x30DE0007, ''U2'', ScaleInt 1, ''m/s'',
      ''Speed threshold''),
    (''CFG-LOGFILTER-POSITION_THRS'', 0x40DE0008, ''U4'', ScaleInt 1, ''m'',
      ''Position threshold''),
    (''CFG-MOT-GNSSSPEED_THRS'', 0x20250038, ''U1'', ScaleFloat ''0.01'', ''m/s'',
      ''GNSS speed threshold below which platform is considered as stationary''),
    (''CFG-MOT-GNSSDIST_THRS'', 0x3025003B, ''U2'', ScaleInt 1, '''',
      ''Distance above which GNSS-based stationary motion is exit''),
    (''CFG-MSGOUT-NMEA_ID_DTM_I2C'', 0x209100A6, ''U1'', ScaleInt 1, '''',
      ''Output rate of the NMEA-GX-DTM message on port I2C''),
    (''CFG-MSGOUT-NMEA_ID_DTM_SPI'', 0x209100AA, ''U1'', ScaleInt 1, '''',
      ''Output rate of the NMEA-GX-DTM message on port SPI''),
    (''CFG-MSGOUT-NMEA_ID_DTM_UART1'', 0x209100A7, ''U1'', ScaleInt 1, '''',
      ''Output rate of the NMEA-GX-DTM message on port UART1''),
    (''CFG-MSGOUT-NMEA_ID_DTM_UART2'', 0x209100A8, ''U1'', ScaleInt 1, '''',
      ''Output rate of the NMEA-GX-DTM message on port UART2''),
    (''CFG-MSGOUT-NMEA_ID_DTM_USB'', 0x209100A9, ''U1'', ScaleInt 1, '''',
      ''Output rate of the NMEA-GX-DTM message on port USB''),
    (''CFG-MSGOUT-NMEA_ID_GBS_I2C'', 0x209100DD, ''U1'', ScaleInt 1, '''',
      ''Output rate of the NMEA-GX-GBS message on port I2C''),
    (''CFG-MSGOUT-NMEA_ID_GBS_SPI'', 0x209100E1, ''U1'', ScaleInt 1, '''',
      ''Output rate of the NMEA-GX-GBS message on port SPI''),
    (''CFG-MSGOUT-NMEA_ID_GBS_UART1'', 0x209100DE, ''U1'', ScaleInt 1, '''',
      ''Output rate of the NMEA-GX-GBS message on port UART1''),
    (''CFG-MSGOUT-NMEA_ID_GBS_UART2'', 0x209100DF, ''U1'', ScaleInt 1, '''',
      ''Output rate of the NMEA-GX-GBS message on port UART2''),
    (''CFG-MSGOUT-NMEA_ID_GBS_USB'', 0x209100E0, ''U1'', ScaleInt 1, '''',
      ''Output rate of the NMEA-GX-GBS message on port USB''),
    (''CFG-MSGOUT-NMEA_ID_GGA_I2C'', 0x209100BA, ''U1'', ScaleInt 1, '''',
      ''Output rate of the NMEA-GX-GGA message on port I2C''),
    (''CFG-MSGOUT-NMEA_ID_GGA_SPI'', 0x209100BE, ''U1'', ScaleInt 1, '''',
      ''Output rate of the NMEA-GX-GGA message on port SPI''),
    (''CFG-MSGOUT-NMEA_ID_GGA_UART1'', 0x209100BB, ''U1'', ScaleInt 1, '''',
      ''Output rate of the NMEA-GX-GGA message on port UART1''),
    (''CFG-MSGOUT-NMEA_ID_GGA_UART2'', 0x209100BC, ''U1'', ScaleInt 1, '''',
      ''Output rate of the NMEA-GX-GGA message on port UART2''),
    (''CFG-MSGOUT-NMEA_ID_GGA_USB'', 0x209100BD, ''U1'', ScaleInt 1, '''',
      ''Output rate of the NMEA-GX-GGA message on port USB'')]"

definition cfgs_part3 :: "cfg_item list" where
  "cfgs_part3 = [
    (''CFG-MSGOUT-NMEA_ID_GLL_I2C'', 0x209100C9, ''U1'', ScaleInt 1, '''',
      ''Output rate of the NMEA-GX-GLL message on port I2C''),
    (''CFG-MSGOUT-NMEA_ID_GLL_SPI'', 0x209100CD, ''U1'', ScaleInt 1, '''',
      ''Output rate of the NMEA-GX-GLL message on port SPI''),
    (''CFG-MSGOUT-NMEA_ID_GLL_UART1'', 0x209100CA, ''U1'', ScaleInt 1, '''',
      ''Output rate of the NMEA-GX-GLL message on port UART1''),
    (''CFG-MSGOUT-NMEA_ID_GLL_UART2'', 0x209100CB, ''U1'', ScaleInt 1, '''',
      ''Output rate of the NMEA-GX-GLL message on port UART2''),
    (''CFG-MSGOUT-NMEA_ID_GLL_USB'', 0x209100CC, ''U1'', ScaleInt 1, '''',
      ''Output rate of the NMEA-GX-GLL message on port USB''),
    (''CFG-MSGOUT-NMEA_ID_GNS_I2C'', 0x209100B5, ''U1'', ScaleInt 1, '''',
      ''Output rate of the NMEA-GX-GNS message on port I2C''),
    (''CFG-MSGOUT-NMEA_ID_GNS_SPI'', 0x209100B9, ''U1'', ScaleInt 1, '''',
      ''Output rate of the NMEA-GX-GNS message on port SPI''),
    (''CFG-MSGOUT-NMEA_ID_GNS_UART1'', 0x209100B6, ''U1'', ScaleInt 1, '''',
      ''Output rate of the NMEA-GX-GNS message on port UART1''),
    (''CFG-MSGOUT-NMEA_ID_GNS_UART2'', 0x209100B7, ''U1'', ScaleInt 1, '''',
      ''Output rate of the NMEA-GX-GNS message on port UART2''),
    (''CFG-MSGOUT-NMEA_ID_GNS_USB'', 0x209100B8, ''U1'', ScaleInt 1, '''',
      ''Output rate of the NMEA-GX-GNS message on port USB''),
    (''CFG-MSGOUT-NMEA_ID_GRS_I2C'', 0x209100CE, ''U1'', ScaleInt 1, '''',
      ''Output rate of the NMEA-GX-GRS message on port I2C''),
    (''CFG-MSGOUT-NMEA_ID_GRS_SPI'', 0x209100D2, ''U1'', ScaleInt 1, '''',
      ''Output rate of the NMEA-GX-GRS message on port SPI''),
    (''CFG-MSGOUT-NMEA_ID_GRS_UART1'', 0x209100CF, ''U1'', ScaleInt 1, '''',
      ''Output rate of the NMEA-GX-GRS message on port UART1''),
    (''CFG-MSGOUT-NMEA_ID_GRS_UART2'', 0x209100D0, ''U1'', ScaleInt 1, '''',
      ''Output rate of the NMEA-GX-GRS message on port UART2''),
    (''CFG-MSGOUT-NMEA_ID_GRS_USB'', 0x209100D1, ''U1'', ScaleInt 1, '''',
      ''Output rate of the NMEA-GX-GRS message on port USB''),
    (''CFG-MSGOUT-NMEA_ID_GSA_I2C'', 0x209100BF, ''U1'', ScaleInt 1, '''',
      ''Output rate of the NMEA-GX-GSA message on port I2C''),
    (''CFG-MSGOUT-NMEA_ID_GSA_SPI'', 0x209100C3, ''U1'', ScaleInt 1, '''',
      ''Output rate of the NMEA-GX-GSA message on port SPI''),
    (''CFG-MSGOUT-NMEA_ID_GSA_UART1'', 0x209100C0, ''U1'', ScaleInt 1, '''',
      ''Output rate of the NMEA-GX-GSA message on port UART1''),
    (''CFG-MSGOUT-NMEA_ID_GSA_UART2'', 0x209100C1, ''U1'', ScaleInt 1, '''',
      ''Output rate of the NMEA-GX-GSA message on port UART2''),
    (''CFG-MSGOUT-NMEA_ID_GSA_USB'', 0x209100C2, ''U1'', ScaleInt 1, '''',
      ''Output rate of the NMEA-GX-GSA message on port USB''),
    (''CFG-MSGOUT-NMEA_ID_GST_I2C'', 0x209100D3, ''U1'', ScaleInt 1, '''',
      ''Output rate of the NMEA-GX-GST message on port I2C''),
    (''CFG-MSGOUT-NMEA_ID_GST_SPI'', 0x209100D7, ''U1'', ScaleInt 1, '''',
      ''Output rate of the NMEA-GX-GST message on port SPI''),
    (''CFG-MSGOUT-NMEA_ID_GST_UART1'', 0x209100D4, ''U1'', ScaleInt 1, '''',
      ''Output rate of the NMEA-GX-GST message on port UART1''),
    (''CFG-MSGOUT-NMEA_ID_GST_UART2'', 0x209100D5, ''U1'', ScaleInt 1, '''',
      ''Output rate of the NMEA-GX-GST message on port UART2''),
    (''CFG-MSGOUT-NMEA_ID_GST_USB'', 0x209100D6, ''U1'', ScaleInt 1, '''',
      ''Output rate of the NMEA-GX-GST message on port USB''),
    (''CFG-MSGOUT-NMEA_ID_GSV_I2C'', 0x209100C4, ''U1'', ScaleInt 1, '''',
      ''Output rate of the NMEA-GX-GSV message on port I2C''),
    (''CFG-MSGOUT-NMEA_ID_GSV_SPI'', 0x209100C8, ''U1'', ScaleInt 1, '''',
      ''Output rate of the NMEA-GX-GSV message on port SPI''),
    (''CFG-MSGOUT-NMEA_ID_GSV_UART1'', 0x209100C5, ''U1'', ScaleInt 1, '''',
      ''Output rate of the NMEA-GX-GSV message on port UART1''),
    (''CFG-MSGOUT-NMEA_ID_GSV_UART2'', 0x209100C6, ''U1'', ScaleInt 1, '''',
      ''Output rate of the NMEA-GX-GSV message on port UART''),
    (''CFG-MSGOUT-NMEA_ID_GSV_USB'', 0x209100C7, ''U1'', ScaleInt 1, '''',
      ''Output rate of the NMEA-GX-GSV message on port USB''),
    (''CFG-MSGOUT-NMEA_ID_RMC_I2C'', 0x209100AB, ''U1'', ScaleInt 1, '''',
      ''Output rate of the NMEA-GX-RMC message on port I2C''),
    (''CFG-MSGOUT-NMEA_ID_RMC_SPI'', 0x209100AF, ''U1'', ScaleInt 1, '''',
      ''Output rate of the NMEA-GX-RMC message on port SPI''),
    (''CFG-MSGOUT-NMEA_ID_RMC_UART1'', 0x209100AC, ''U1'', ScaleInt 1, '''',
      ''Output rate of the NMEA-GX-RMC message on port UART1''),
    (''CFG-MSGOUT-NMEA_ID_RMC_UART2'', 0x209100AD, ''U1'', ScaleInt 1, '''',
      ''Output rate of the NMEA-GX-RMC message on port UART2''),
    (''CFG-MSGOUT-NMEA_ID_RMC_USB'', 0x209100AE, ''U1'', ScaleInt 1, '''',
      ''Output rate of the NMEA-GX-RMC message on port USB''),
    (''CFG-MSGOUT-NMEA_ID_VLW_I2C'', 0x209100E7, ''U1'', ScaleInt 1, '''',
      ''Output rate of the NMEA-GX-VLW message on port I2C''),
    (''CFG-MSGOUT-NMEA_ID_VLW_SPI'', 0x209100EB, ''U1'', ScaleInt 1, '''',
      ''Output rate of the NMEA-GX-VLW message on port SPI''),
    (''CFG-MSGOUT-NMEA_ID_VLW_UART1'', 0x209100E8, ''U1'', ScaleInt 1, '''',
      ''Output rate of the NMEA-GX-VLW message on port UART1''),
    (''CFG-MSGOUT-NMEA_ID_VLW_UART2'', 0x209100E9, ''U1'', ScaleInt 1, '''',
      ''Output rate of the NMEA-GX-VLW message on port UART2''),
    (''CFG-MSGOUT-NMEA_ID_VLW_USB'', 0x209100EA, ''U1'', ScaleInt 1, '''',
      ''Output rate of the NMEA-GX-VLW message on port USB'')]"

definition cfgs_part4 :: "cfg_item list" where
  "cfgs_part4 = [
    (''CFG-MSGOUT-NMEA_ID_VTG_I2C'', 0x209100B0, ''U1'', ScaleInt 1, '''',
      ''Output rate of the NMEA-GX-VTG message on port I2C''),
    (''CFG-MSGOUT-NMEA_ID_VTG_SPI'', 0x209100B4, ''U1'', ScaleInt 1, '''',
      ''Output rate of the NMEA-GX-VTG message on port SPI''),
    (''CFG-MSGOUT-NMEA_ID_VTG_UART1'', 0x209100B1, ''U1'', ScaleInt 1, '''',
      ''Output rate of the NMEA-GX-VTG message on port UART1''),
    (''CFG-MSGOUT-NMEA_ID_VTG_UART2'', 0x209100B2, ''U1'', ScaleInt 1, '''',
      ''Output rate of the NMEA-GX-VTG message on port UART2''),
    (''CFG-MSGOUT-NMEA_ID_VTG_USB'', 0x209100B3, ''U1'', ScaleInt 1, '''',
      ''Output rate of the NMEA-GX-VTG message on port USB''),
    (''CFG-MSGOUT-NMEA_ID_ZDA_I2C'', 0x209100D8, ''U1'', ScaleInt 1, '''',
      ''Output rate of the NMEA-GX-ZDA message on port I2C''),
    (''CFG-MSGOUT-NMEA_ID_ZDA_SPI'', 0x209100DC, ''U1'', ScaleInt 1, '''',
      ''Output rate of the NMEA-GX-ZDA message on port SPI''),
    (''CFG-MSGOUT-NMEA_ID_ZDA_UART1'', 0x209100D9, ''U1'', ScaleInt 1, '''',
      ''Output rate of the NMEA-GX-ZDA message on port UART1''),
    (''CFG-MSGOUT-NMEA_ID_ZDA_UART2'', 0x209100DA, ''U1'', ScaleInt 1, '''',
      ''Output rate of the NMEA-GX-ZDA message on port UART2''),
    (''CFG-MSGOUT-NMEA_ID_ZDA_USB'', 0x209100DB, ''U1'', ScaleInt 1, '''',
      ''Output rate of the NMEA-GX-ZDA message on port USB''),
    (''CFG-MSGOUT-PUBX_ID_POLYP_I2C'', 0x209100EC, ''U1'', ScaleInt 1, '''',
      ''Output rate of the NMEA-GX-PUBX00 message on port I2C''),
    (''CFG-MSGOUT-PUBX_ID_POLYP_SPI'', 0x209100F0, ''U1'', ScaleInt 1, '''',
      ''Output rate of the NMEA-GX-PUBX00 message on port SPI''),
    (''CFG-MSGOUT-PUBX_ID_POLYP_UART1'', 0x209100ED, ''U1'', ScaleInt 1, '''',
      ''Output rate of the NMEA-GX-PUBX00 message on port UART1''),
    (''CFG-MSGOUT-PUBX_ID_POLYP_UART2'', 0x209100EE, ''U1'', ScaleInt 1, '''',
      ''Output rate of the NMEA-GX-PUBX00 message on port UART2''),
    (''CFG-MSGOUT-PUBX_ID_POLYP_USB'', 0x209100EF, ''U1'', ScaleInt 1, '''',
      ''Output rate of the NMEA-GX-PUBX00 message on port USB''),
    (''CFG-MSGOUT-PUBX_ID_POLYS_I2C'', 0x209100F1, ''U1'', ScaleInt 1, '''',
      ''Output rate of the NMEA-GX-PUBX03 message on port I2C''),
    (''CFG-MSGOUT-PUBX_ID_POLYS_SPI'', 0x209100F5, ''U1'', ScaleInt 1, '''',
      ''Output rate of the NMEA-GX-PUBX03 message on port SPI''),
    (''CFG-MSGOUT-PUBX_ID_POLYS_UART1'', 0x209100F2, ''U1'', ScaleInt 1, '''',
      ''Output rate of the NMEA-GX-PUBX03 message on port UART1''),
    (''CFG-MSGOUT-PUBX_ID_POLYS_UART2'', 0x209100F3, ''U1'', ScaleInt 1, '''',
      ''Output rate of the NMEA-GX-PUBX03 message on port UART2''),
    (''CFG-MSGOUT-PUBX_ID_POLYS_USB'', 0x209100F4, ''U1'', ScaleInt 1, '''',
      ''Output rate of the NMEA-GX-PUBX03 message on port USB''),
    (''CFG-MSGOUT-PUBX_ID_POLYT_I2C'', 0x209100F6, ''U1'', ScaleInt 1, '''',
      ''Output rate of the NMEA-GX-PUBX04 message on port I2C''),
    (''CFG-MSGOUT-PUBX_ID_POLYT_SPI'', 0x209100FA, ''U1'', ScaleInt 1, '''',
      ''Output rate of the NMEA-GX-PUBX04 message on port SPI''),
    (''CFG-MSGOUT-PUBX_ID_POLYT_UART1'', 0x209100F7, ''U1'', ScaleInt 1, '''',
      ''Output rate of the NMEA-GX-PUBX04 message on port UART1''),
    (''CFG-MSGOUT-PUBX_ID_POLYT_UART2'', 0x209100F8, ''U1'', ScaleInt 1, '''',
      ''Output rate of the NMEA-GX-PUBX04 message on port UART2''),
    (''CFG-MSGOUT-PUBX_ID_POLYT_USB'', 0x209100F9, ''U1'', ScaleInt 1, '''',
      ''Output rate of the NMEA-GX-PUBX04 message on port USB''),
    (''CFG-MSGOUT-RTCM_3X_TYPE1005_I2C'', 0x209102BD, ''U1'', ScaleInt 1, '''',
      ''Output rate of the RTCM-3X-TYPE1005 message on port I2C''),
    (''CFG-MSGOUT-RTCM_3X_TYPE1005_SPI'', 0x209102C1, ''U1'', ScaleInt 1, '''',
      ''Output rate of the RTCM-3X-TYPE1005 message on port SPI''),
    (''CFG-MSGOUT-RTCM_3X_TYPE1005_UART1'', 0x209102BE, ''U1'', ScaleInt 1, '''',
      ''Output rate of the RTCM-3X-TYPE1005 message on port UART1''),
    (''CFG-MSGOUT-RTCM_3X_TYPE1005_UART2'', 0x209102BF, ''U1'', ScaleInt 1, '''',
      ''Output rate of the RTCM-3X-TYPE1005 message on port UART2''),
    (''CFG-MSGOUT-RTCM_3X_TYPE1005_USB'', 0x209102C0, ''U1'', ScaleInt 1, '''',
      ''Output rate of the RTCM-3X-TYPE1005 message on port USB''),
    (''CFG-MSGOUT-RTCM_3X_TYPE1074_I2C'', 0x2091035E, ''U1'', ScaleInt 1, '''',
      ''Output rate of the RTCM-3X-TYPE1074 message on port I2C''),
    (''CFG-MSGOUT-RTCM_3X_TYPE1074_SPI'', 0x20910362, ''U1'', ScaleInt 1, '''',
      ''Output rate of the RTCM-3X-TYPE1074 message on port SPI''),
    (''CFG-MSGOUT-RTCM_3X_TYPE1074_UART1'', 0x2091035F, ''U1'', ScaleInt 1, '''',
      ''Output rate of the RTCM-3X-TYPE1074 message on port UART1''),
    (''CFG-MSGOUT-RTCM_3X_TYPE1074_UART2'', 0x20910360, ''U1'', ScaleInt 1, '''',
      ''Output rate of the RTCM-3X-TYPE1074 message on port UART2''),
    (''CFG-MSGOUT-RTCM_3X_TYPE1074_USB'', 0x20910361, ''U1'', ScaleInt 1, '''',
      ''Output rate of the RTCM-3X-TYPE1074 message on port USB''),
    (''CFG-MSGOUT-RTCM_3X_TYPE1077_I2C'', 0x209102CC, ''U1'', ScaleInt 1, '''',
      ''Output rate of the RTCM-3X-TYPE1077 message on port I2''),
    (''CFG-MSGOUT-RTCM_3X_TYPE1077_SPI'', 0x209102D0, ''U1'', ScaleInt 1, '''',
      ''Output rate of the RTCM-3X-TYPE1077 message on port SPI''),
    (''CFG-MSGOUT-RTCM_3X_TYPE1077_UART1'', 0x209102CD, ''U1'', ScaleInt 1, '''',
      ''Output rate of the RTCM-3X-TYPE1077 message on port UART1''),
    (''CFG-MSGOUT-RTCM_3X_TYPE1077_UART2'', 0x209102CE, ''U1'', ScaleInt 1, '''',
      ''Output rate of the RTCM-3X-TYPE1077 message on port UART2''),
    (''CFG-MSGOUT-RTCM_3X_TYPE1077_USB'', 0x209102CF, ''U1'', ScaleInt 1, '''',
      ''Output rate of the RTCM-3X-TYPE1077 message on port USB'')]"

definition cfgs_part5 :: "cfg_item list" where
  "cfgs_part5 = [
    (''CFG-MSGOUT-RTCM_3X_TYPE1087_I2C'', 0x209102D1, ''U1'', ScaleInt 1, '''',
      ''Output rate of the RTCM-3X-TYPE1087 message on port I2C''),
    (''CFG-MSGOUT-RTCM_3X_TYPE1084_SPI'', 0x20910367, ''U1'', ScaleInt 1, '''',
      ''Output rate of the RTCM-3X-TYPE1084 message on port SPI''),
    (''CFG-MSGOUT-RTCM_3X_TYPE1084_UART1'', 0x20910364, ''U1'', ScaleInt 1, '''',
      ''Output rate of the RTCM-3X-TYPE1084 message on port UART1''),
    (''CFG-MSGOUT-RTCM_3X_TYPE1084_UART2'', 0x20910365, ''U1'', ScaleInt 1, '''',
      ''Output rate of the RTCM-3X-TYPE1084 message on port UART2''),
    (''CFG-MSGOUT-RTCM_3X_TYPE1084_USB'', 0x20910366, ''U1'', ScaleInt 1, '''',
      ''Output rate of the RTCM-3X-TYPE1084 message on port USB''),
    (''CFG-MSGOUT-RTCM_3X_TYPE1087_SPI'', 0x209102D5, ''U1'', ScaleInt 1, '''',
      ''Output rate of the RTCM-3X-TYPE1087 message on port SPI''),
    (''CFG-MSGOUT-RTCM_3X_TYPE1087_UART1'', 0x209102D2, ''U1'', ScaleInt 1, '''',
      ''Output rate of the RTCM-3X-TYPE1087 message on port UART1''),
    (''CFG-MSGOUT-RTCM_3X_TYPE1087_UART2'', 0x209102D3, ''U1'', ScaleInt 1, '''',
      ''Output rate of the RTCM-3X-TYPE1087 message on port UART2''),
    (''CFG-MSGOUT-RTCM_3X_TYPE1087_USB'', 0x209102D4, ''U1'', ScaleInt 1, '''',
      ''Output rate of the RTCM-3X-TYPE1087 message on port USB''),
    (''CFG-MSGOUT-RTCM_3X_TYPE1094_I2C'', 0x20910368, ''U1'', ScaleInt 1, '''',
      ''Output rate of the RTCM-3X-TYPE1094 message on port I2C''),
    (''CFG-MSGOUT-RTCM_3X_TYPE1094_SPI'', 0x2091036C, ''U1'', ScaleInt 1, '''',
      ''Output rate of the RTCM-3X-TYPE1094 message on port SPI''),
    (''CFG-MSGOUT-RTCM_3X_TYPE1094_UART1'', 0x20910369, ''U1'', ScaleInt 1, '''',
      ''Output rate of the RTCM-3X-TYPE1094 message on port UART1''),
    (''CFG-MSGOUT-RTCM_3X_TYPE1094_UART2'', 0x2091036A, ''U1'', ScaleInt 1, '''',
      ''Output rate of the RTCM-3X-TYPE1094 message on port UART2''),
    (''CFG-MSGOUT-RTCM_3X_TYPE1094_USB'', 0x2091036B, ''U1'', ScaleInt 1, '''',
      ''Output rate of the RTCM-3X-TYPE1094 message on port USB''),
    (''CFG-MSGOUT-RTCM_3X_TYPE1097_I2C'', 0x20910318, ''U1'', ScaleInt 1, '''',
      ''Output rate of the RTCM-3X-TYPE1097 message on port I2C''),
    (''CFG-MSGOUT-RTCM_3X_TYPE1097_SPI'', 0x2091031C, ''U1'', ScaleInt 1, '''',
      ''Output rate of the RTCM-3X-TYPE1097 message on port SPI''),
    (''CFG-MSGOUT-RTCM_3X_TYPE1097_UART1'', 0x20910319, ''U1'', ScaleInt 1, '''',
      ''Output rate of the RTCM-3X-TYPE1097 message on port UART1''),
    (''CFG-MSGOUT-RTCM_3X_TYPE1097_UART2'', 0x2091031A, ''U1'', ScaleInt 1, '''',
      ''Output rate of the RTCM-3X-TYPE1097 message on port UART2''),
    (''CFG-MSGOUT-RTCM_3X_TYPE1097_USB'', 0x2091031B, ''U1'', ScaleInt 1, '''',
      ''Output rate of the RTCM-3X-TYPE1097 message on port USB''),
    (''CFG-MSGOUT-RTCM_3X_TYPE1124_I2C'', 0x2091036D, ''U1'', ScaleInt 1, '''',
      ''Output rate of the RTCM-3X-TYPE1124 message on port I2C''),
    (''CFG-MSGOUT-RTCM_3X_TYPE1124_SPI'', 0x20910371, ''U1'', ScaleInt 1, '''',
      ''Output rate of the RTCM-3X-TYPE1124 message on port SPI''),
    (''CFG-MSGOUT-RTCM_3X_TYPE1124_UART1'', 0x2091036E, ''U1'', ScaleInt 1, '''',
      ''Output rate of the RTCM-3X-TYPE1124 message on port UART1''),
    (''CFG-MSGOUT-RTCM_3X_TYPE1124_UART2'', 0x2091036F, ''U1'', ScaleInt 1, '''',
      ''Output rate of the RTCM-3X-TYPE1124 message on port UART2''),
    (''CFG-MSGOUT-RTCM_3X_TYPE1124_USB'', 0x20910370, ''U1'', ScaleInt 1, '''',
      ''Output rate of the RTCM-3X-TYPE1124 message on port USB''),
    (''CFG-MSGOUT-RTCM_3X_TYPE1127_I2C'', 0x209102D6, ''U1'', ScaleInt 1, '''',
      ''Output rate of the RTCM-3X-TYPE1127 message on port I2C''),
    (''CFG-MSGOUT-RTCM_3X_TYPE1127_SPI'', 0x209102DA, ''U1'', ScaleInt 1, '''',
      ''Output rate of the RTCM-3X-TYPE1127 message on port SPI''),
    (''CFG-MSGOUT-RTCM_3X_TYPE1127_UART1'', 0x209102D7, ''U1'', ScaleInt 1, '''',
      ''Output rate of the RTCM-3X-TYPE1127 message on port UART1''),
    (''CFG-MSGOUT-RTCM_3X_TYPE1127_UART2'', 0x209102D8, ''U1'', ScaleInt 1, '''',
      ''Output rate of the RTCM-3X-TYPE1127 message on port UART2''),
    (''CFG-MSGOUT-RTCM_3X_TYPE1127_USB'', 0x209102D9, ''U1'', ScaleInt 1, '''',
      ''Output rate of the RTCM-3X-TYPE1127 message on port USB''),
    (''CFG-MSGOUT-RTCM_3X_TYPE1230_I2C'', 0x20910303, ''U1'', ScaleInt 1, '''',
      ''Output rate of the RTCM-3X-TYPE1230 message on port I2C''),
    (''CFG-MSGOUT-RTCM_3X_TYPE1230_SPI'', 0x20910307, ''U1'', ScaleInt 1, '''',
      ''Output rate of the RTCM-3X-TYPE1230 message on port SPI''),
    (''CFG-MSGOUT-RTCM_3X_TYPE1230_UART1'', 0x20910304, ''U1'', ScaleInt 1, '''',
      ''Output rate of the RTCM-3X-TYPE1230 message on port UART1''),
    (''CFG-MSGOUT-RTCM_3X_TYPE1230_UART2'', 0x20910305, ''U1'', ScaleInt 1, '''',
      ''Output rate of the RTCM-3X-TYPE1230 message on port UART2''),
    (''CFG-MSGOUT-RTCM_3X_TYPE1230_USB'', 0x20910306, ''U1'', ScaleInt 1, '''',
      ''Output rate of the RTCM-3X-TYPE1230 message on port USB''),
    (''CFG-MSGOUT-RTCM_3X_TYPE4072_0_I2C'', 0x209102FE, ''U1'', ScaleInt 1, '''',
      ''Output rate of the RTCM-3X-TYPE4072, sub-type 0 message on port I2C''),
    (''CFG-MSGOUT-RTCM_3X_TYPE4072_0_SPI'', 0x20910302, ''U1'', ScaleInt 1, '''',
      ''Output rate of the RTCM-3X-TYPE4072, sub-type 0 message on port SPI''),
    (''CFG-MSGOUT-RTCM_3X_TYPE4072_0_UART1'', 0x209102FF, ''U1'', ScaleInt 1, '''',
      ''Output rate of the RTCM-3X-TYPE4072, sub-type 0 message on port UART1''),
    (''CFG-MSGOUT-RTCM_3X_TYPE4072_0_UART2'', 0x20910300, ''U1'', ScaleInt 1, '''',
      ''Output rate of the RTCM-3X-TYPE4072, sub-type 0 message on port UART2''),
    (''CFG-MSGOUT-RTCM_3X_TYPE4072_0_USB'', 0x20910301, ''U1'', ScaleInt 1, '''',
      ''Output rate of the RTCM-3X-TYPE4072, sub-type 0 message on port USB''),
    (''CFG-MSGOUT-RTCM_3X_TYPE4072_1_I2C'', 0x20910381, ''U1'', ScaleInt 1, '''',
      ''Output rate of the RTCM-3X-TYPE4072, sub-type 1 message on  port I2C'')]"

definition cfgs_part6 :: "cfg_item list" where
  "cfgs_part6 = [
    (''CFG-MSGOUT-RTCM_3X_TYPE4072_1_SPI'', 0x20910385, ''U1'', ScaleInt 1, '''',
      ''Output rate of the RTCM-3X-TYPE4072, sub-type 1 message on  port SPI''),
    (''CFG-MSGOUT-RTCM_3X_TYPE4072_1_UART1'', 0x20910382, ''U1'', ScaleInt 1, '''',
      ''Output rate of the RTCM-3X-TYPE4072, sub-type 1 message on  port UART1''),
    (''CFG-MSGOUT-RTCM_3X_TYPE4072_1_UART2'', 0x20910383, ''U1'', ScaleInt 1, '''',
      ''Output rate of the RTCM-3X-TYPE4072, sub-type 1 message on  port UART2''),
    (''CFG-MSGOUT-RTCM_3X_TYPE4072_1_USB'', 0x20910384, ''U1'', ScaleInt 1, '''',
      ''Output rate of the RTCM-3X-TYPE4072, sub-type 1 message on port USB''),
    (''CFG-MSGOUT-UBX_LOG_INFO_I2C'', 0x20910259, ''U1'', ScaleInt 1, '''',
      ''Output rate of the UBX-LOG-INFO message on port I2C''),
    (''CFG-MSGOUT-UBX_LOG_INFO_SPI'', 0x2091025D, ''U1'', ScaleInt 1, '''',
      ''Output rate of the UBX-LOG-INFO message on port SPI''),
    (''CFG-MSGOUT-UBX_LOG_INFO_UART1'', 0x2091025A, ''U1'', ScaleInt 1, '''',
      ''Output rate of the UBX-LOG-INFO message on port UART1''),
    (''CFG-MSGOUT-UBX_LOG_INFO_UART2'', 0x2091025B, ''U1'', ScaleInt 1, '''',
      ''Output rate of the UBX-LOG-INFO message on port UART2''),
    (''CFG-MSGOUT-UBX_LOG_INFO_USB'', 0x2091025C, ''U1'', ScaleInt 1, '''',
      ''Output rate of the UBX-LOG-INFO message on port USB''),
    (''CFG-MSGOUT-UBX_MON_COMMS_I2C'', 0x2091034F, ''U1'', ScaleInt 1, '''',
      ''Output rate of the UBX-MON-COMMS message on port I2C''),
    (''CFG-MSGOUT-UBX_MON_COMMS_SPI'', 0x20910353, ''U1'', ScaleInt 1, '''',
      ''Output rate of the UBX-MON-COMMS message on port SPI''),
    (''CFG-MSGOUT-UBX_MON_COMMS_UART1'', 0x20910350, ''U1'', ScaleInt 1, '''',
      ''Output rate of the UBX-MON-COMMS message on port UART1''),
    (''CFG-MSGOUT-UBX_MON_COMMS_UART2'', 0x20910351, ''U1'', ScaleInt 1, '''',
      ''Output rate of the UBX-MON-COMMS message on port UART2''),
    (''CFG-MSGOUT-UBX_MON_COMMS_USB'', 0x20910352, ''U1'', ScaleInt 1, '''',
      ''Output rate of the UBX-MON-COMMS message on port USB''),
    (''CFG-MSGOUT-UBX_MON_HW2_I2C'', 0x209101B9, ''U1'', ScaleInt 1, '''',
      ''Output rate of the UBX-MON-HW2 message on port I2C''),
    (''CFG-MSGOUT-UBX_MON_HW2_SPI'', 0x209101BD, ''U1'', ScaleInt 1, '''',
      ''Output rate of the UBX-MON-HW2 message on port SPI''),
    (''CFG-MSGOUT-UBX_MON_HW2_UART1'', 0x209101BA, ''U1'', ScaleInt 1, '''',
      ''Output rate of the UBX-MON-HW2 message on port UART1''),
    (''CFG-MSGOUT-UBX_MON_HW2_UART2'', 0x209101BB, ''U1'', ScaleInt 1, '''',
      ''Output rate of the UBX-MON-HW2 message on port UART2''),
    (''CFG-MSGOUT-UBX_MON_HW2_USB'', 0x209101BC, ''U1'', ScaleInt 1, '''',
      ''Output rate of the UBX-MON-HW2 message on port USB''),
    (''CFG-MSGOUT-UBX_MON_HW3_I2C'', 0x20910354, ''U1'', ScaleInt 1, '''',
      ''Output rate of the UBX-MON-HW3 message on port I2C''),
    (''CFG-MSGOUT-UBX_MON_HW3_SPI'', 0x20910358, ''U1'', ScaleInt 1, '''',
      ''Output rate of the UBX-MON-HW3 message on port SPI''),
    (''CFG-MSGOUT-UBX_MON_HW3_UART1'', 0x20910355, ''U1'', ScaleInt 1, '''',
      ''Output rate of the UBX-MON-HW3 message on port UART1''),
    (''CFG-MSGOUT-UBX_MON_HW3_UART2'', 0x20910356, ''U1'', ScaleInt 1, '''',
      ''Output rate of the UBX-MON-HW3 message on port UART2''),
    (''CFG-MSGOUT-UBX_MON_HW3_USB'', 0x20910357, ''U1'', ScaleInt 1, '''',
      ''Output rate of the UBX-MON-HW3 message on port USB''),
    (''CFG-MSGOUT-UBX_MON_HW_I2C'', 0x209101B4, ''U1'', ScaleInt 1, '''',
      ''Output rate of the UBX-MON-HW message on port I2C''),
    (''CFG-MSGOUT-UBX_MON_HW_SPI'', 0x209101B8, ''U1'', ScaleInt 1, '''',
      ''Output rate of the UBX-MON-HW message on port SPI''),
    (''CFG-MSGOUT-UBX_MON_HW_UART1'', 0x209101B5, ''U1'', ScaleInt 1, '''',
      ''Output rate of the UBX-MON-HW message on port UART1''),
    (''CFG-MSGOUT-UBX_MON_HW_UART2'', 0x209101B6, ''U1'', ScaleInt 1, '''',
      ''Output rate of the UBX-MON-HW message on port UART2''),
    (''CFG-MSGOUT-UBX_MON_HW_USB'', 0x209101B7, ''U1'', ScaleInt 1, '''',
      ''Output rate of the UBX-MON-HW message on port USB''),
    (''CFG-MSGOUT-UBX_MON_IO_I2C'', 0x209101A5, ''U1'', ScaleInt 1, '''',
      ''Output rate of the UBX-MON-IO message on port I2C''),
    (''CFG-MSGOUT-UBX_MON_IO_SPI'', 0x209101A9, ''U1'', ScaleInt 1, '''',
      ''Output rate of the UBX-MON-IO message on port SPI''),
    (''CFG-MSGOUT-UBX_MON_IO_UART1'', 0x209101A6, ''U1'', ScaleInt 1, '''',
      ''Output rate of the UBX-MON-IO message on port UART1''),
    (''CFG-MSGOUT-UBX_MON_IO_UART2'', 0x209101A7, ''U1'', ScaleInt 1, '''',
      ''Output rate of the UBX-MON-IO message on port UART2''),
    (''CFG-MSGOUT-UBX_MON_IO_USB'', 0x209101A8, ''U1'', ScaleInt 1, '''',
      ''Output rate of the UBX-MON-IO message on port USB''),
    (''CFG-MSGOUT-UBX_MON_MSGPP_I2C'', 0x20910196, ''U1'', ScaleInt 1, '''',
      ''Output rate of the UBX-MON-MSGPP message on port I2C''),
    (''CFG-MSGOUT-UBX_MON_MSGPP_SPI'', 0x2091019A, ''U1'', ScaleInt 1, '''',
      ''Output rate of the UBX-MON-MSGPP message on port SPI''),
    (''CFG-MSGOUT-UBX_MON_MSGPP_UART1'', 0x20910197, ''U1'', ScaleInt 1, '''',
      ''Output rate of the UBX-MON-MSGPP message on port UART1''),
    (''CFG-MSGOUT-UBX_MON_MSGPP_UART2'', 0x20910198, ''U1'', ScaleInt 1, '''',
      ''Output rate of the UBX-MON-MSGPP message on port UART2''),
    (''CFG-MSGOUT-UBX_MON_MSGPP_USB'', 0x20910199, ''U1'', ScaleInt 1, '''',
      ''Output rate of the UBX-MON-MSGPP message on port USB''),
    (''CFG-MSGOUT-UBX_MON_RF_I2C'', 0x20910359, ''U1'', ScaleInt 1, '''',
      ''Output rate of the UBX-MON-RF message on port I2C'')]"

definition cfgs_part7 :: "cfg_item list" where
  "cfgs_part7 = [
    (''CFG-MSGOUT-UBX_MON_RF_SPI'', 0x2091035D, ''U1'', ScaleInt 1, '''',
      ''Output rate of the UBX-MON-RF message on port SPI''),
    (''CFG-MSGOUT-UBX_MON_RF_UART1'', 0x2091035A, ''U1'', ScaleInt 1, '''',
      ''Output rate of the UBX-MON-RF message on port UART1''),
    (''CFG-MSGOUT-UBX_MON_RF_UART2'', 0x2091035B, ''U1'', ScaleInt 1, '''',
      ''Output rate of the UBX-MON-RF message on port UART2''),
    (''CFG-MSGOUT-UBX_MON_RF_USB'', 0x2091035C, ''U1'', ScaleInt 1, '''',
      ''Output rate of the UBX-MON-RF message on port USB''),
    (''CFG-MSGOUT-UBX_MON_RXBUF_I2C'', 0x209101A0, ''U1'', ScaleInt 1, '''',
      ''Output rate of the UBX-MON-RXBUF message on port I2C''),
    (''CFG-MSGOUT-UBX_MON_RXBUF_SPI'', 0x209101A4, ''U1'', ScaleInt 1, '''',
      ''Output rate of the UBX-MON-RXBUF message on port SPI''),
    (''CFG-MSGOUT-UBX_MON_RXBUF_UART1'', 0x209101A1, ''U1'', ScaleInt 1, '''',
      ''Output rate of the UBX-MON-RXBUF message on port UART1''),
    (''CFG-MSGOUT-UBX_MON_RXBUF_UART2'', 0x209101A2, ''U1'', ScaleInt 1, '''',
      ''Output rate of the UBX-MON-RXBUF message on port UART2''),
    (''CFG-MSGOUT-UBX_MON_RXBUF_USB'', 0x209101A3, ''U1'', ScaleInt 1, '''',
      ''Output rate of the UBX-MON-RXBUF message on port USB''),
    (''CFG-MSGOUT-UBX_MON_RXR_I2C'', 0x20910187, ''U1'', ScaleInt 1, '''',
      ''Output rate of the UBX-MON-RXR message on port I2C''),
    (''CFG-MSGOUT-UBX_MON_RXR_SPI'', 0x2091018B, ''U1'', ScaleInt 1, '''',
      ''Output rate of the UBX-MON-RXR message on port SPI''),
    (''CFG-MSGOUT-UBX_MON_RXR_UART1'', 0x20910188, ''U1'', ScaleInt 1, '''',
      ''Output rate of the UBX-MON-RXR message on port UART1''),
    (''CFG-MSGOUT-UBX_MON_RXR_UART2'', 0x20910189, ''U1'', ScaleInt 1, '''',
      ''Output rate of the UBX-MON-RXR message on port UART2''),
    (''CFG-MSGOUT-UBX_MON_RXR_USB'', 0x2091018A, ''U1'', ScaleInt 1, '''',
      ''Output rate of the UBX-MON-RXR message on port USB''),
    (''CFG-MSGOUT-UBX_MON_TXBUF_I2C'', 0x2091019B, ''U1'', ScaleInt 1, '''',
      ''Output rate of the UBX-MON-TXBUF message on port I2C''),
    (''CFG-MSGOUT-UBX_MON_TXBUF_SPI'', 0x2091019F, ''U1'', ScaleInt 1, '''',
      ''Output rate of the UBX-MON-TXBUF message on port SPI''),
    (''CFG-MSGOUT-UBX_MON_TXBUF_UART1'', 0x2091019C, ''U1'', ScaleInt 1, '''',
      ''Output rate of the UBX-MON-TXBUF message on port UART1''),
    (''CFG-MSGOUT-UBX_MON_TXBUF_UART2'', 0x2091019D, ''U1'', ScaleInt 1, '''',
      ''Output rate of the UBX-MON-TXBUF message on port UART2''),
    (''CFG-MSGOUT-UBX_MON_TXBUF_USB'', 0x2091019E, ''U1'', ScaleInt 1, '''',
      ''Output rate of the UBX-MON-TXBUF message on port USB''),
    (''CFG-MSGOUT-UBX_MON_TXBUF_I2C'', 0x2091019B, ''U1'', ScaleInt 1, '''',
      ''Output rate of the UBX-MON-TXBUF message on port I2C''),
    (''CFG-MSGOUT-UBX_MON_TXBUF_SPI'', 0x2091019F, ''U1'', ScaleInt 1, '''',
      ''Output rate of the UBX-MON-TXBUF message on port SPI''),
    (''CFG-MSGOUT-UBX_MON_TXBUF_UART1'', 0x2091019C, ''U1'', ScaleInt 1, '''',
      ''Output rate of the UBX-MON-TXBUF message on port UART1''),
    (''CFG-MSGOUT-UBX_MON_TXBUF_UART2'', 0x2091019D, ''U1'', ScaleInt 1, '''',
      ''Output rate of the UBX-MON-TXBUF message on port UART2''),
    (''CFG-MSGOUT-UBX_MON_TXBUF_USB'', 0x2091019E, ''U1'', ScaleInt 1, '''',
      ''Output rate of the UBX-MON-TXBUF message on port USB''),
    (''CFG-MSGOUT-UBX_NAV_CLOCK_I2C'', 0x20910065, ''U1'', ScaleInt 1, '''',
      ''Output rate of the UBX-NAV-CLOCK message on port I2C''),
    (''CFG-MSGOUT-UBX_NAV_CLOCK_SPI'', 0x20910069, ''U1'', ScaleInt 1, '''',
      ''Output rate of the UBX-NAV-CLOCK message on port SPI''),
    (''CFG-MSGOUT-UBX_NAV_CLOCK_UART1'', 0x20910066, ''U1'', ScaleInt 1, '''',
      ''Output rate of the UBX-NAV-CLOCK message on port UART1''),
    (''CFG-MSGOUT-UBX_NAV_CLOCK_UART2'', 0x20910067, ''U1'', ScaleInt 1, '''',
      ''Output rate of the UBX-NAV-CLOCK message on port UART2''),
    (''CFG-MSGOUT-UBX_NAV_CLOCK_USB'', 0x20910068, ''U1'', ScaleInt 1, '''',
      ''Output rate of the UBX-NAV- CLOCK message on port USB''),
    (''CFG-MSGOUT-UBX_NAV_DOP_I2C'', 0x20910038, ''U1'', ScaleInt 1, '''',
      ''Output rate of the UBX-NAV-DOP message on port I2C''),
    (''CFG-MSGOUT-UBX_NAV_DOP_SPI'', 0x2091003C, ''U1'', ScaleInt 1, '''',
      ''Output rate of the UBX-NAV-DOP message on port SPI''),
    (''CFG-MSGOUT-UBX_NAV_DOP_UART1'', 0x20910039, ''U1'', ScaleInt 1, '''',
      ''Output rate of the UBX-NAV-DOP message on port UART1''),
    (''CFG-MSGOUT-UBX_NAV_DOP_UART2'', 0x2091003A, ''U1'', ScaleInt 1, '''',
      ''Output rate of the UBX-NAV-DOP message on port UART2''),
    (''CFG-MSGOUT-UBX_NAV_DOP_USB'', 0x2091003B, ''U1'', ScaleInt 1, '''',
      ''Output rate of the UBX-NAV-DOP message on port USB''),
    (''CFG-MSGOUT-UBX_NAV_EOE_I2C'', 0x2091015F, ''U1'', ScaleInt 1, '''',
      ''Output rate of the UBX-NAV-EOE message on port I2C''),
    (''CFG-MSGOUT-UBX_NAV_EOE_SPI'', 0x20910163, ''U1'', ScaleInt 1, '''',
      ''Output rate of the UBX-NAV-EOE message on port SPI''),
    (''CFG-MSGOUT-UBX_NAV_EOE_UART1'', 0x20910160, ''U1'', ScaleInt 1, '''',
      ''Output rate of the UBX-NAV-EOE message on port UART1''),
    (''CFG-MSGOUT-UBX_NAV_EOE_UART2'', 0x20910161, ''U1'', ScaleInt 1, '''',
      ''Output rate of the UBX-NAV-EOE message on port UART2''),
    (''CFG-MSGOUT-UBX_NAV_EOE_USB'', 0x20910162, ''U1'', ScaleInt 1, '''',
      ''Output rate of the UBX-NAV-EOE message on port USB''),
    (''CFG-MSGOUT-UBX_NAV_GEOFENCE_I2C'', 0x209100A1, ''U1'', ScaleInt 1, '''',
      ''Output rate of the UBX-NAV-GEOFENCE message on port I2C'')]"

definition cfgs_part8 :: "cfg_item list" where
  "cfgs_part8 = [
    (''CFG-MSGOUT-UBX_NAV_GEOFENCE_SPI'', 0x209100A5, ''U1'', ScaleInt 1, '''',
      ''Output rate of the UBX-NAV-GEOFENCE message on port SPI''),
    (''CFG-MSGOUT-UBX_NAV_GEOFENCE_UART1'', 0x209100A2, ''U1'', ScaleInt 1, '''',
      ''Output rate of the UBX-NAV-GEOFENCE message on port UART1''),
    (''CFG-MSGOUT-UBX_NAV_GEOFENCE_UART2'', 0x209100A3, ''U1'', ScaleInt 1, '''',
      ''Output rate of the UBX-NAV-GEOFENCE message on port UART2''),
    (''CFG-MSGOUT-UBX_NAV_GEOFENCE_USB'', 0x209100A4, ''U1'', ScaleInt 1, '''',
      ''Output rate of the UBX-NAV- GEOFENCE message on port USB''),
    (''CFG-MSGOUT-UBX_NAV_HPPOSECEF_I2C'', 0x2091002E, ''U1'', ScaleInt 1, '''',
      ''Output rate of the UBX-NAV-HPPOSECEF message on port I2C''),
    (''CFG-MSGOUT-UBX_NAV_HPPOSECEF_SPI'', 0x20910032, ''U1'', ScaleInt 1, '''',
      ''Output rate of the UBX-NAV-HPPOSECEF message on port SPI''),
    (''CFG-MSGOUT-UBX_NAV_HPPOSECEF_UART1'', 0x2091002F, ''U1'', ScaleInt 1, '''',
      ''Output rate of the UBX-NAV-HPPOSECEF message on port UART1''),
    (''CFG-MSGOUT-UBX_NAV_HPPOSECEF_UART2'', 0x20910030, ''U1'', ScaleInt 1, '''',
      ''Output rate of the UBX-NAV-HPPOSECEF message on port UART2''),
    (''CFG-MSGOUT-UBX_NAV_HPPOSECEF_USB'', 0x20910031, ''U1'', ScaleInt 1, '''',
      ''Output rate of the UBX-NAV-HPPOSECEF message on port USB''),
    (''CFG-MSGOUT-UBX_NAV_HPPOSLLH_I2C'', 0x20910033, ''U1'', ScaleInt 1, '''',
      ''Output rate of the UBX-NAV-HPPOSLLH message on port I2C''),
    (''CFG-MSGOUT-UBX_NAV_HPPOSLLH_SPI'', 0x20910037, ''U1'', ScaleInt 1, '''',
      ''Output rate of the UBX-NAV-HPPOSLLH message on port SPI''),
    (''CFG-MSGOUT-UBX_NAV_HPPOSLLH_UART1'', 0x20910034, ''U1'', ScaleInt 1, '''',
      ''Output rate of the UBX-NAV-HPPOSLLH message on port UART1''),
    (''CFG-MSGOUT-UBX_NAV_HPPOSLLH_UART2'', 0x20910035, ''U1'', ScaleInt 1, '''',
      ''Output rate of the UBX-NAV-HPPOSLLH message on port UART2''),
    (''CFG-MSGOUT-UBX_NAV_HPPOSLLH_USB'', 0x20910036, ''U1'', ScaleInt 1, '''',
      ''Output rate of the UBX-NAV-HPPOSLLH message on port USB''),
    (''CFG-MSGOUT-UBX_NAV_ODO_I2C'', 0x2091007E, ''U1'', ScaleInt 1, '''',
      ''Output rate of the UBX-NAV-ODO message on port I2C''),
    (''CFG-MSGOUT-UBX_NAV_ODO_SPI'', 0x20910082, ''U1'', ScaleInt 1, '''',
      ''Output rate of the UBX-NAV-ODO message on port SPI''),
    (''CFG-MSGOUT-UBX_NAV_ODO_UART1'', 0x2091007F, ''U1'', ScaleInt 1, '''',
      ''Output rate of the UBX-NAV-ODO message on port UART1''),
    (''CFG-MSGOUT-UBX_NAV_ODO_UART2'', 0x20910080, ''U1'', ScaleInt 1, '''',
      ''Output rate of the UBX-NAV-ODO message on port UART2''),
    (''CFG-MSGOUT-UBX_NAV_ODO_USB'', 0x20910081, ''U1'', ScaleInt 1, '''',
      ''Output rate of the UBX-NAV-ODO message on port USB''),
    (''CFG-MSGOUT-UBX_NAV_ORB_I2C'', 0x20910010, ''U1'', ScaleInt 1, '''',
      ''Output rate of the UBX-NAV-ORB message on port I2C''),
    (''CFG-MSGOUT-UBX_NAV_ORB_SPI'', 0x20910014, ''U1'', ScaleInt 1, '''',
      ''Output rate of the UBX-NAV-ORB message on port SPI''),
    (''CFG-MSGOUT-UBX_NAV_ORB_UART1'', 0x20910011, ''U1'', ScaleInt 1, '''',
      ''Output rate of the UBX-NAV-ORB message on port UART1''),
    (''CFG-MSGOUT-UBX_NAV_ORB_UART2'', 0x20910012, ''U1'', ScaleInt 1, '''',
      ''Output rate of the UBX-NAV-ORB message on port UART2''),
    (''CFG-MSGOUT-UBX_NAV_ORB_USB'', 0x20910013, ''U1'', ScaleInt 1, '''',
      ''Output rate of the UBX-NAV-ORB message on port USB''),
    (''CFG-MSGOUT-UBX_NAV_POSECEF_I2C'', 0x20910024, ''U1'', ScaleInt 1, '''',
      ''Output rate of the UBX-NAV-POSECEF message on port I2C''),
    (''CFG-MSGOUT-UBX_NAV_POSECEF_SPI'', 0x20910028, ''U1'', ScaleInt 1, '''',
      ''Output rate of the UBX-NAV-POSECEF message on port SPI''),
    (''CFG-MSGOUT-UBX_NAV_POSECEF_UART1'', 0x20910025, ''U1'', ScaleInt 1, '''',
      ''Output rate of the UBX-NAV-POSECEF message on port UART1''),
    (''CFG-MSGOUT-UBX_NAV_POSECEF_UART2'', 0x20910026, ''U1'', ScaleInt 1, '''',
      ''Output rate of the UBX-NAV-POSECEF message on port UART2''),
    (''CFG-MSGOUT-UBX_NAV_POSECEF_USB'', 0x20910027, ''U1'', ScaleInt 1, '''',
      ''Output rate of the UBX-NAV-POSECEF message on port USB''),
    (''CFG-MSGOUT-UBX_NAV_POSLLH_I2C'', 0x20910029, ''U1'', ScaleInt 1, '''',
      ''Output rate of the UBX-NAV-POSLLH message on port I2C''),
    (''CFG-MSGOUT-UBX_NAV_POSLLH_SPI'', 0x2091002D, ''U1'', ScaleInt 1, '''',
      ''Output rate of the UBX-NAV-POSLLH message on port SPI''),
    (''CFG-MSGOUT-UBX_NAV_POSLLH_UART1'', 0x2091002A, ''U1'', ScaleInt 1, '''',
      ''Output rate of the UBX-NAV-POSLLH message on port UART1''),
    (''CFG-MSGOUT-UBX_NAV_POSLLH_UART2'', 0x2091002B, ''U1'', ScaleInt 1, '''',
      ''Output rate of the UBX-NAV-POSLLH message on port UART2''),
    (''CFG-MSGOUT-UBX_NAV_POSLLH_USB'', 0x2091002C, ''U1'', ScaleInt 1, '''',
      ''Output rate of the UBX-NAV-POSLLH message on port USB''),
    (''CFG-MSGOUT-UBX_NAV_PVT_I2C'', 0x20910006, ''U1'', ScaleInt 1, '''',
      ''Output rate of the UBX-NAV-PVT message on port I2C''),
    (''CFG-MSGOUT-UBX_NAV_PVT_SPI'', 0x2091000A, ''U1'', ScaleInt 1, '''',
      ''Output rate of the UBX-NAV-PVT message on port SPI''),
    (''CFG-MSGOUT-UBX_NAV_PVT_UART1'', 0x20910007, ''U1'', ScaleInt 1, '''',
      ''Output rate of the UBX-NAV-PVT message on port UART1''),
    (''CFG-MSGOUT-UBX_NAV_PVT_UART2'', 0x20910008, ''U1'', ScaleInt 1, '''',
      ''Output rate of the UBX-NAV-PVT message on port UART2''),
    (''CFG-MSGOUT-UBX_NAV_PVT_USB'', 0x20910009, ''U1'', ScaleInt 1, '''',
      ''Output rate of the UBX-NAV-PVT message on port USB''),
    (''CFG-MSGOUT-UBX_NAV_RELPOSNED_I2C'', 0x2091008D, ''U1'', ScaleInt 1, '''',
      ''Output rate of the UBX-NAV-RELPOSNED message on port I2C'')]"

definition cfgs_part9 :: "cfg_item list" where
  "cfgs_part9 = [
    (''CFG-MSGOUT-UBX_NAV_RELPOSNED_SPI'', 0x20910091, ''U1'', ScaleInt 1, '''',
      ''Output rate of the UBX-NAV-RELPOSNED message on port SPI''),
    (''CFG-MSGOUT-UBX_NAV_RELPOSNED_UART1'', 0x2091008E, ''U1'', ScaleInt 1, '''',
      ''Output rate of the UBX-NAV-RELPOSNED message on port UART1''),
    (''CFG-MSGOUT-UBX_NAV_RELPOSNED_UART2'', 0x2091008F, ''U1'', ScaleInt 1, '''',
      ''Output rate of the UBX-NAV-RELPOSNED message on port UART2''),
    (''CFG-MSGOUT-UBX_NAV_RELPOSNED_USB'', 0x20910090, ''U1'', ScaleInt 1, '''',
      ''Output rate of the UBX-NAV-RELPOSNED message on port USB''),
    (''CFG-MSGOUT-UBX_NAV_SAT_I2C'', 0x20910015, ''U1'', ScaleInt 1, '''',
      ''Output rate of the UBX-NAV-SAT message on port I2C''),
    (''CFG-MSGOUT-UBX_NAV_SAT_SPI'', 0x20910019, ''U1'', ScaleInt 1, '''',
      ''Output rate of the UBX-NAV-SAT message on port SPI''),
    (''CFG-MSGOUT-UBX_NAV_SAT_UART1'', 0x20910016, ''U1'', ScaleInt 1, '''',
      ''Output rate of the UBX-NAV-SAT message on port UART1''),
    (''CFG-MSGOUT-UBX_NAV_SAT_UART2'', 0x20910017, ''U1'', ScaleInt 1, '''',
      ''Output rate of the UBX-NAV-SAT message on port UART2''),
    (''CFG-MSGOUT-UBX_NAV_SAT_USB'', 0x20910018, ''U1'', ScaleInt 1, '''',
      ''Output rate of the UBX-NAV-SAT message on port USB''),
    (''CFG-MSGOUT-UBX_NAV_SBAS_I2C'', 0x2091006A, ''U1'', ScaleInt 1, '''',
      ''Output rate of the UBX-NAV-SBAS message on port I2C''),
    (''CFG-MSGOUT-UBX_NAV_SBAS_SPI'', 0x2091006E, ''U1'', ScaleInt 1, '''',
      ''Output rate of the UBX-NAV-SBAS message on port SPI''),
    (''CFG-MSGOUT-UBX_NAV_SBAS_UART1'', 0x2091006B, ''U1'', ScaleInt 1, '''',
      ''Output rate of the UBX-NAV-SBAS message on port UART1''),
    (''CFG-MSGOUT-UBX_NAV_SBAS_UART2'', 0x2091006C, ''U1'', ScaleInt 1, '''',
      ''Output rate of the UBX-NAV-SBAS message on port UART2''),
    (''CFG-MSGOUT-UBX_NAV_SBAS_USB'', 0x2091006D, ''U1'', ScaleInt 1, '''',
      ''Output rate of the UBX-NAV-SBAS message on port USB''),
    (''CFG-MSGOUT-UBX_NAV_SIG_I2C'', 0x20910345, ''U1'', ScaleInt 1, '''',
      ''Output rate of the UBX-NAV-SIG message on port I2C''),
    (''CFG-MSGOUT-UBX_NAV_SIG_SPI'', 0x20910349, ''U1'', ScaleInt 1, '''',
      ''Output rate of the UBX-NAV-SIG message on port SPI''),
    (''CFG-MSGOUT-UBX_NAV_SIG_UART1'', 0x20910346, ''U1'', ScaleInt 1, '''',
      ''Output rate of the UBX-NAV-SIG message on port UART1''),
    (''CFG-MSGOUT-UBX_NAV_SIG_UART2'', 0x20910347, ''U1'', ScaleInt 1, '''',
      ''Output rate of the UBX-NAV-SIG message on port UART2''),
    (''CFG-MSGOUT-UBX_NAV_SIG_USB'', 0x20910348, ''U1'', ScaleInt 1, '''',
      ''Output rate of the UBX-NAV-SIG message on port USB''),
    (''CFG-MSGOUT-UBX_NAV_STATUS_I2C'', 0x2091001A, ''U1'', ScaleInt 1, '''',
      ''Output rate of the UBX-NAV-STATUS message on port I2C''),
    (''CFG-MSGOUT-UBX_NAV_STATUS_SPI'', 0x2091001E, ''U1'', ScaleInt 1, '''',
      ''Output rate of the UBX-NAV-STATUS message on port SPI''),
    (''CFG-MSGOUT-UBX_NAV_STATUS_UART1'', 0x2091001B, ''U1'', ScaleInt 1, '''',
      ''Output rate of the UBX-NAV-STATUS message on port UART1''),
    (''CFG-MSGOUT-UBX_NAV_STATUS_UART2'', 0x2091001C, ''U1'', ScaleInt 1, '''',
      ''Output rate of the UBX-NAV-STATUS message on port UART2''),
    (''CFG-MSGOUT-UBX_NAV_STATUS_USB'', 0x2091001D, ''U1'', ScaleInt 1, '''',
      ''Output rate of the UBX-NAV-STATUS message on port USB''),
    (''CFG-MSGOUT-UBX_NAV_SVIN_I2C'', 0x20910088, ''U1'', ScaleInt 1, '''',
      ''Output rate of the UBX-NAV-SVIN message on port I2C''),
    (''CFG-MSGOUT-UBX_NAV_SVIN_SPI'', 0x2091008C, ''U1'', ScaleInt 1, '''',
      ''Output rate of the UBX-NAV-SVIN message on port SPI''),
    (''CFG-MSGOUT-UBX_NAV_SVIN_UART1'', 0x20910089, ''U1'', ScaleInt 1, '''',
      ''Output rate of the UBX-NAV-SVIN message on port UART1''),
    (''CFG-MSGOUT-UBX_NAV_SVIN_UART2'', 0x2091008A, ''U1'', ScaleInt 1, '''',
      ''Output rate of the UBX-NAV-SVIN message on port UART2''),
    (''CFG-MSGOUT-UBX_NAV_SVIN_USB'', 0x2091008B, ''U1'', ScaleInt 1, '''',
      ''Output rate of the UBX-NAV-SVIN message on port USB''),
    (''CFG-MSGOUT-UBX_NAV_TIMEBDS_I2C'', 0x20910051, ''U1'', ScaleInt 1, '''',
      ''Output rate of the UBX-NAV-TIMEBDS message on port I2C''),
    (''CFG-MSGOUT-UBX_NAV_TIMEBDS_SPI'', 0x20910055, ''U1'', ScaleInt 1, '''',
      ''Output rate of the UBX-NAV-TIMEBDS message on port SPI''),
    (''CFG-MSGOUT-UBX_NAV_TIMEBDS_UART1'', 0x20910052, ''U1'', ScaleInt 1, '''',
      ''Output rate of the UBX-NAV-TIMEBDS message on port UART1''),
    (''CFG-MSGOUT-UBX_NAV_TIMEBDS_UART2'', 0x20910053, ''U1'', ScaleInt 1, '''',
      ''Output rate of the UBX-NAV-TIMEBDS message on port UART2''),
    (''CFG-MSGOUT-UBX_NAV_TIMEBDS_USB'', 0x20910054, ''U1'', ScaleInt 1, '''',
      ''Output rate of the UBX-NAV-TIMEBDS message on port USB''),
    (''CFG-MSGOUT-UBX_NAV_TIMEGAL_I2C'', 0x20910056, ''U1'', ScaleInt 1, '''',
      ''Output rate of the UBX-NAV-TIMEGAL message on port I2C''),
    (''CFG-MSGOUT-UBX_NAV_TIMEGAL_SPI'', 0x2091005A, ''U1'', ScaleInt 1, '''',
      ''Output rate of the UBX-NAV-TIMEGAL message on port SPI''),
    (''CFG-MSGOUT-UBX_NAV_TIMEGAL_UART1'', 0x20910057, ''U1'', ScaleInt 1, '''',
      ''Output rate of the UBX-NAV-TIMEGAL message on port UART1''),
    (''CFG-MSGOUT-UBX_NAV_TIMEGAL_UART2'', 0x20910058, ''U1'', ScaleInt 1, '''',
      ''Output rate of the UBX-NAV-TIMEGAL message on port UART2''),
    (''CFG-MSGOUT-UBX_NAV_TIMEGAL_USB'', 0x20910059, ''U1'', ScaleInt 1, '''',
      ''Output rate of the UBX-NAV-TIMEGAL message on port USB''),
    (''CFG-MSGOUT-UBX_NAV_TIMEGLO_I2C'', 0x2091004C, ''U1'', ScaleInt 1, '''',
      ''Output rate of the UBX-NAV-TIMEGLO message on port I2C'')]"

definition cfgs_part10 :: "cfg_item list" where
  "cfgs_part10 = [
    (''CFG-MSGOUT-UBX_NAV_TIMEGLO_SPI'', 0x20910050, ''U1'', ScaleInt 1, '''',
      ''Output rate of the UBX-NAV-TIMEGLO message on port SPI''),
    (''CFG-MSGOUT-UBX_NAV_TIMEGLO_UART1'', 0x2091004D, ''U1'', ScaleInt 1, '''',
      ''Output rate of the UBX-NAV-TIMEGLO message on port UART1''),
    (''CFG-MSGOUT-UBX_NAV_TIMEGLO_UART2'', 0x2091004E, ''U1'', ScaleInt 1, '''',
      ''Output rate of the UBX-NAV-TIMEGLO message on port UART2''),
    (''CFG-MSGOUT-UBX_NAV_TIMEGLO_USB'', 0x2091004F, ''U1'', ScaleInt 1, '''',
      ''Output rate of the UBX-NAV-TIMEGLO message on port USB''),
    (''CFG-MSGOUT-UBX_NAV_TIMEGPS_I2C'', 0x20910047, ''U1'', ScaleInt 1, '''',
      ''Output rate of the UBX-NAV-TIMEGPS message on port I2C''),
    (''CFG-MSGOUT-UBX_NAV_TIMEGPS_SPI'', 0x2091004B, ''U1'', ScaleInt 1, '''',
      ''Output rate of the UBX-NAV-TIMEGPS message on port SPI''),
    (''CFG-MSGOUT-UBX_NAV_TIMEGPS_UART1'', 0x20910048, ''U1'', ScaleInt 1, '''',
      ''Output rate of the UBX-NAV-TIMEGPS message on port UART1''),
    (''CFG-MSGOUT-UBX_NAV_TIMEGPS_UART2'', 0x20910049, ''U1'', ScaleInt 1, '''',
      ''Output rate of the UBX-NAV-TIMEGPS message on port UART2''),
    (''CFG-MSGOUT-UBX_NAV_TIMEGPS_USB'', 0x2091004A, ''U1'', ScaleInt 1, '''',
      ''Output rate of the UBX-NAV-TIMEGPS message on port USB''),
    (''CFG-MSGOUT-UBX_NAV_TIMELS_I2C'', 0x20910060, ''U1'', ScaleInt 1, '''',
      ''Output rate of the UBX-NAV-TIMELS message on port I2C''),
    (''CFG-MSGOUT-UBX_NAV_TIMELS_SPI'', 0x20910064, ''U1'', ScaleInt 1, '''',
      ''Output rate of the UBX-NAV-TIMELS message on port SPI''),
    (''CFG-MSGOUT-UBX_NAV_TIMELS_UART1'', 0x20910061, ''U1'', ScaleInt 1, '''',
      ''Output rate of the UBX-NAV-TIMELS message on port UART1''),
    (''CFG-MSGOUT-UBX_NAV_TIMELS_UART2'', 0x20910062, ''U1'', ScaleInt 1, '''',
      ''Output rate of the UBX-NAV-TIMELS message on port UART2''),
    (''CFG-MSGOUT-UBX_NAV_TIMELS_USB'', 0x20910063, ''U1'', ScaleInt 1, '''',
      ''Output rate of the UBX-NAV-TIMELS message on port USB''),
    (''CFG-MSGOUT-UBX_NAV_TIMEUTC_I2C'', 0x2091005B, ''U1'', ScaleInt 1, '''',
      ''Output rate of the UBX-NAV-TIMEUTC message on port I2C''),
    (''CFG-MSGOUT-UBX_NAV_TIMEUTC_SPI'', 0x2091005F, ''U1'', ScaleInt 1, '''',
      ''Output rate of the UBX-NAV-TIMEUTC message on port S''),
    (''CFG-MSGOUT-UBX_NAV_TIMEUTC_UART1'', 0x2091005C, ''U1'', ScaleInt 1, '''',
      ''Output rate of the UBX-NAV-TIMEUTC message on port UART1''),
    (''CFG-MSGOUT-UBX_NAV_TIMEUTC_UART2'', 0x2091005D, ''U1'', ScaleInt 1, '''',
      ''Output rate of the UBX-NAV-TIMEUTC message on port UART2''),
    (''CFG-MSGOUT-UBX_NAV_TIMEUTC_USB'', 0x2091005E, ''U1'', ScaleInt 1, '''',
      ''Output rate of the UBX-NAV- TIMEUTC message on port USB''),
    (''CFG-MSGOUT-UBX_NAV_VELECEF_I2C'', 0x2091003D, ''U1'', ScaleInt 1, '''',
      ''Output rate of the UBX-NAV-VELECEF message on port I2C''),
    (''CFG-MSGOUT-UBX_NAV_VELECEF_SPI'', 0x20910041, ''U1'', ScaleInt 1, '''',
      ''Output rate of the UBX-NAV-VELECEF message on port SPI''),
    (''CFG-MSGOUT-UBX_NAV_VELECEF_UART1'', 0x2091003E, ''U1'', ScaleInt 1, '''',
      ''Output rate of the UBX-NAV-VELECEF message on port UART1''),
    (''CFG-MSGOUT-UBX_NAV_VELECEF_UART2'', 0x2091003F, ''U1'', ScaleInt 1, '''',
      ''Output rate of the UBX-NAV-VELECEF message on port UART2''),
    (''CFG-MSGOUT-UBX_NAV_VELECEF_USB'', 0x20910040, ''U1'', ScaleInt 1, '''',
      ''Output rate of the UBX-NAV-VELECEF message on port USB''),
    (''CFG-MSGOUT-UBX_NAV_VELNED_I2C'', 0x20910042, ''U1'', ScaleInt 1, '''',
      ''Output rate of the UBX-NAV-VELNED message on port I2C''),
    (''CFG-MSGOUT-UBX_NAV_VELNED_SPI'', 0x20910046, ''U1'', ScaleInt 1, '''',
      ''Output rate of the UBX-NAV-VELNED message on port SPI''),
    (''CFG-MSGOUT-UBX_NAV_VELNED_UART1'', 0x20910043, ''U1'', ScaleInt 1, '''',
      ''Output rate of the UBX-NAV-VELNED message on port UART1''),
    (''CFG-MSGOUT-UBX_NAV_VELNED_UART2'', 0x20910044, ''U1'', ScaleInt 1, '''',
      ''Output rate of the UBX-NAV-VELNED message on port UART2''),
    (''CFG-MSGOUT-UBX_NAV_VELNED_USB'', 0x20910045, ''U1'', ScaleInt 1, '''',
      ''Output rate of the UBX-NAV-VELNED message on port USB''),
    (''CFG-MSGOUT-UBX_RXM_MEASX_I2C'', 0x20910204, ''U1'', ScaleInt 1, '''',
      ''Output rate of the UBX-RXM-MEASX message on port I2C''),
    (''CFG-MSGOUT-UBX_RXM_MEASX_SPI'', 0x20910208, ''U1'', ScaleInt 1, '''',
      ''Output rate of the UBX-RXM-MEASX message on port SPI''),
    (''CFG-MSGOUT-UBX_RXM_MEASX_UART1'', 0x20910205, ''U1'', ScaleInt 1, '''',
      ''Output rate of the UBX-RXM-MEASX message on port UART1''),
    (''CFG-MSGOUT-UBX_RXM_MEASX_UART2'', 0x20910206, ''U1'', ScaleInt 1, '''',
      ''Output rate of the UBX-RXM-MEASX message on port UART2''),
    (''CFG-MSGOUT-UBX_RXM_MEASX_USB'', 0x20910207, ''U1'', ScaleInt 1, '''',
      ''Output rate of the UBX-RXM-MEASX message on port USB''),
    (''CFG-MSGOUT-UBX_RXM_RAWX_I2C'', 0x209102A4, ''U1'', ScaleInt 1, '''',
      ''Output rate of the UBX-RXM-RAWX message on port I2C''),
    (''CFG-MSGOUT-UBX_RXM_RAWX_SPI'', 0x209102A8, ''U1'', ScaleInt 1, '''',
      ''Output rate of the UBX-RXM-RAWX message on port SPI''),
    (''CFG-MSGOUT-UBX_RXM_RAWX_UART1'', 0x209102A5, ''U1'', ScaleInt 1, '''',
      ''Output rate of the UBX-RXM-RAWX message on port UART1''),
    (''CFG-MSGOUT-UBX_RXM_RAWX_UART2'', 0x209102A6, ''U1'', ScaleInt 1, '''',
      ''Output rate of the UBX-RXM-RAWX message on port UART2''),
    (''CFG-MSGOUT-UBX_RXM_RAWX_USB'', 0x209102A7, ''U1'', ScaleInt 1, '''',
      ''Output rate of the UBX-RXM-RAWX message on port USB''),
    (''CFG-MSGOUT-UBX_RXM_RLM_I2C'', 0x2091025E, ''U1'', ScaleInt 1, '''',
      ''Output rate of the UBX-RXM-RLM message on port I2C'')]"

definition cfgs_part11 :: "cfg_item list" where
  "cfgs_part11 = [
    (''CFG-MSGOUT-UBX_RXM_RLM_SPI'', 0x20910262, ''U1'', ScaleInt 1, '''',
      ''Output rate of the UBX-RXM-RLM message on port SPI''),
    (''CFG-MSGOUT-UBX_RXM_RLM_UART1'', 0x2091025F, ''U1'', ScaleInt 1, '''',
      ''Output rate of the UBX-RXM-RLM message on port UART1''),
    (''CFG-MSGOUT-UBX_RXM_RLM_UART2'', 0x20910260, ''U1'', ScaleInt 1, '''',
      ''Output rate of the UBX-RXM-RLM message on port UART2''),
    (''CFG-MSGOUT-UBX_RXM_RLM_USB'', 0x20910261, ''U1'', ScaleInt 1, '''',
      ''Output rate of the UBX-RXM-RLM message on port USB''),
    (''CFG-MSGOUT-UBX_RXM_RTCM_I2C'', 0x20910268, ''U1'', ScaleInt 1, '''',
      ''Output rate of the UBX-RXM-RTCM message on port I2C''),
    (''CFG-MSGOUT-UBX_RXM_RTCM_SPI'', 0x2091026C, ''U1'', ScaleInt 1, '''',
      ''Output rate of the UBX-RXM-RTCM message on port SPI''),
    (''CFG-MSGOUT-UBX_RXM_RTCM_UART1'', 0x20910269, ''U1'', ScaleInt 1, '''',
      ''Output rate of the UBX-RXM-RTCM message on port UART1''),
    (''CFG-MSGOUT-UBX_RXM_RTCM_UART2'', 0x2091026A, ''U1'', ScaleInt 1, '''',
      ''Output rate of the UBX-RXM-RTCM message on port UART2''),
    (''CFG-MSGOUT-UBX_RXM_RTCM_USB'', 0x2091026B, ''U1'', ScaleInt 1, '''',
      ''Output rate of the UBX-RXM-RTCM message on port USB''),
    (''CFG-MSGOUT-UBX_RXM_SFRBX_I2C'', 0x20910231, ''U1'', ScaleInt 1, '''',
      ''Output rate of the UBX-RXM-SFRBX message on port I2C''),
    (''CFG-MSGOUT-UBX_RXM_SFRBX_SPI'', 0x20910235, ''U1'', ScaleInt 1, '''',
      ''Output rate of the UBX-RXM-SFRBX message on port SPI''),
    (''CFG-MSGOUT-UBX_RXM_SFRBX_UART1'', 0x20910232, ''U1'', ScaleInt 1, '''',
      ''Output rate of the UBX-RXM-SFRBX message on port UART1''),
    (''CFG-MSGOUT-UBX_RXM_SFRBX_UART2'', 0x20910233, ''U1'', ScaleInt 1, '''',
      ''Output rate of the UBX-RXM-SFRBX message on port UART2''),
    (''CFG-MSGOUT-UBX_RXM_SFRBX_USB'', 0x20910234, ''U1'', ScaleInt 1, '''',
      ''Output rate of the UBX-RXM-SFRBX message on port USB''),
    (''CFG-MSGOUT-UBX_TIM_SVIN_I2C'', 0x20910097, ''U1'', ScaleInt 1, '''',
      ''Output rate of the UBX-TIM-SVIN message on port I2C''),
    (''CFG-MSGOUT-UBX_TIM_SVIN_SPI'', 0x2091009B, ''U1'', ScaleInt 1, '''',
      ''Output rate of the UBX-TIM-SVIN message on port SPI''),
    (''CFG-MSGOUT-UBX_TIM_SVIN_UART1'', 0x20910098, ''U1'', ScaleInt 1, '''',
      ''Output rate of the UBX-TIM-SVIN message on port UART1''),
    (''CFG-MSGOUT-UBX_TIM_SVIN_UART2'', 0x20910099, ''U1'', ScaleInt 1, '''',
      ''Output rate of the UBX-TIM-SVIN message on port UART2''),
    (''CFG-MSGOUT-UBX_TIM_SVIN_USB'', 0x2091009A, ''U1'', ScaleInt 1, '''',
      ''Output rate of the UBX-TIM-SVIN message on port USB''),
    (''CFG-MSGOUT-UBX_TIM_TM2_I2C'', 0x20910178, ''U1'', ScaleInt 1, '''',
      ''Output rate of the UBX-TIM-TM2 message on port I2C''),
    (''CFG-MSGOUT-UBX_TIM_TM2_SPI'', 0x2091017C, ''U1'', ScaleInt 1, '''',
      ''Output rate of the UBX-TIM-TM2 message on port SPI''),
    (''CFG-MSGOUT-UBX_TIM_TM2_UART1'', 0x20910179, ''U1'', ScaleInt 1, '''',
      ''Output rate of the UBX-TIM-TM2 message on port UART1''),
    (''CFG-MSGOUT-UBX_TIM_TM2_UART2'', 0x2091017A, ''U1'', ScaleInt 1, '''',
      ''Output rate of the UBX-TIM-TM2 message on port UART2''),
    (''CFG-MSGOUT-UBX_TIM_TM2_USB'', 0x2091017B, ''U1'', ScaleInt 1, '''',
      ''Output rate of the UBX-TIM-TM2 message on port USB''),
    (''CFG-MSGOUT-UBX_TIM_TP_I2C'', 0x2091017D, ''U1'', ScaleInt 1, '''',
      ''Output rate of the UBX-TIM-TP message on port I2C''),
    (''CFG-MSGOUT-UBX_TIM_TP_SPI'', 0x20910181, ''U1'', ScaleInt 1, '''',
      ''Output rate of the UBX-TIM-TP message on port SPI''),
    (''CFG-MSGOUT-UBX_TIM_TP_UART1'', 0x2091017E, ''U1'', ScaleInt 1, '''',
      ''Output rate of the UBX-TIM-TP message on port UART1''),
    (''CFG-MSGOUT-UBX_TIM_TP_UART2'', 0x2091017F, ''U1'', ScaleInt 1, '''',
      ''Output rate of the UBX-TIM-TP message on port UART2''),
    (''CFG-MSGOUT-UBX_TIM_TP_USB'', 0x20910180, ''U1'', ScaleInt 1, '''',
      ''Output rate of the UBX-TIM-TP message on port USB''),
    (''CFG-MSGOUT-UBX_TIM_VRFY_I2C'', 0x20910092, ''U1'', ScaleInt 1, '''',
      ''Output rate of the UBX-TIM-VRFY message on port I2C''),
    (''CFG-MSGOUT-UBX_TIM_VRFY_SPI'', 0x20910096, ''U1'', ScaleInt 1, '''',
      ''Output rate of the UBX-TIM-VRFY message on port SPI''),
    (''CFG-MSGOUT-UBX_TIM_VRFY_UART1'', 0x20910093, ''U1'', ScaleInt 1, '''',
      ''Output rate of the UBX-TIM-VRFY message on port UART1''),
    (''CFG-MSGOUT-UBX_TIM_VRFY_UART2'', 0x20910094, ''U1'', ScaleInt 1, '''',
      ''Output rate of the UBX-TIM-VRFY message on port UART2''),
    (''CFG-MSGOUT-UBX_TIM_VRFY_USB'', 0x20910095, ''U1'', ScaleInt 1, '''',
      ''Output rate of the UBX-TIM-VRFY message on port USB''),
    (''CFG-NAVHPG-DGNSSMODE'', 0x20140011, ''E1'', ScaleInt 1, '''',
      ''Differential corrections mode''),
    (''CFG-NAVSPG-FIXMODE'', 0x20110011, ''E1'', ScaleInt 1, '''',
      ''Position fix mode''),
    (''CFG-NAVSPG-INIFIX3D'', 0x10110013, ''L'', ScaleInt 1, '''',
      ''Initial fix must be a 3d fix''),
    (''CFG-NAVSPG-WKNROLLOVER'', 0x30110017, ''U2'', ScaleInt 1, '''',
      ''GPS week rollover number''),
    (''CFG-NAVSPG-USE_PPP'', 0x10110019, ''L'', ScaleInt 1, '''',
      ''Use Precise Point Positioning''),
    (''CFG-NAVSPG-UTCSTANDARD'', 0x2011001C, ''E1'', ScaleInt 1, '''',
      ''UTC standard to be used'')]"

definition cfgs_part12 :: "cfg_item list" where
  "cfgs_part12 = [
    (''CFG-NAVSPG-DYNMODEL'', 0x20110021, ''E1'', ScaleInt 1, '''',
      ''Dynamic platform model''),
    (''CFG-NAVSPG-ACKAIDING'', 0x10110025, ''L'', ScaleInt 1, '''',
      ''Acknowledge assistance input messages''),
    (''CFG-NAVSPG-USE_USRDAT'', 0x10110061, ''L'', ScaleInt 1, '''',
      ''Use user geodetic datum''),
    (''CFG-NAVSPG-USRDAT_MAJA'', 0x50110062, ''R8'', ScaleInt 1, ''m'',
      ''Geodetic datum semi-major axis''),
    (''CFG-NAVSPG-USRDAT_FLAT'', 0x50110063, ''R8'', ScaleInt 1, '''',
      ''Geodetic datum 1.0 / flattening''),
    (''CFG-NAVSPG-USRDAT_DX'', 0x40110064, ''R4'', ScaleInt 1, ''m'',
      ''Geodetic datum X axis shift at the orgin''),
    (''CFG-NAVSPG-USRDAT_DY'', 0x40110065, ''R4'', ScaleInt 1, ''m'',
      ''Geodetic datum Y axis shift at the origin''),
    (''CFG-NAVSPG-USRDAT_DZ'', 0x40110066, ''R4'', ScaleInt 1, ''m'',
      ''Geodetic datum Z axis shift at the origin''),
    (''CFG-NAVSPG-USRDAT_ROTX'', 0x40110067, ''R4'', ScaleInt 1, ''arcsec'',
      ''Geodetic datum rotation about the X axis''),
    (''CFG-NAVSPG-USRDAT_ROTY'', 0x40110068, ''R4'', ScaleInt 1, ''arcsec'',
      ''Geodetic datum rotation about the Y axis ()''),
    (''CFG-NAVSPG-USRDAT_ROTZ'', 0x40110069, ''R4'', ScaleInt 1, ''arcsec'',
      ''Geodetic datum rotation about the Z axis''),
    (''CFG-NAVSPG-USRDAT_SCALE'', 0x4011006A, ''R4'', ScaleInt 1, ''ppm'',
      ''Geodetic datum scale factor''),
    (''CFG-NAVSPG-INFIL_MINSVS'', 0x201100A1, ''U1'', ScaleInt 1, '''',
      ''Minimum number of satellites for navigation''),
    (''CFG-NAVSPG-INFIL_MAXSVS'', 0x201100A2, ''U1'', ScaleInt 1, '''',
      ''Maximum number of satellites for navigation''),
    (''CFG-NAVSPG-INFIL_MINCNO'', 0x201100A3, ''U1'', ScaleInt 1, ''dBHz'',
      ''Minimum satellite signal level for navigation''),
    (''CFG-NAVSPG-INFIL_MINELEV'', 0x201100A4, ''I1'', ScaleInt 1, ''deg'',
      ''Minimum elevation for a GNSS satellite to be used in navigation''),
    (''CFG-NAVSPG-INFIL_NCNOTHRS'', 0x201100AA, ''U1'', ScaleInt 1, '''',
      ''Number of satellites required to have C/N0 above CFG-NAVSPG-INFIL_CNOTHRS for a fix to be attempted''),
    (''CFG-NAVSPG-INFIL_CNOTHRS'', 0x201100AB, ''U1'', ScaleInt 1, '''',
      ''C/N0 threshold for deciding whether to attempt a fix''),
    (''CFG-NAVSPG-OUTFIL_PDOP'', 0x301100B1, ''U2'', ScaleFloat ''0.1'', '''',
      ''Output filter position DOP mask (threshold)''),
    (''CFG-NAVSPG-OUTFIL_TDOP'', 0x301100B2, ''U2'', ScaleFloat ''0.11'', '''',
      ''Output filter time DOP mask (threshold)''),
    (''CFG-NAVSPG-OUTFIL_PACC'', 0x301100B3, ''U2'', ScaleInt 1, ''m'',
      ''Output filter position accuracy mask (threshold)''),
    (''CFG-NAVSPG-OUTFIL_TACC'', 0x301100B4, ''U2'', ScaleInt 1, ''m'',
      ''Output filter time accuracy mask (threshold)''),
    (''CFG-NAVSPG-OUTFIL_FACC'', 0x301100B5, ''U2'', ScaleFloat ''0.01'', ''m/s'',
      ''Output filter frequency accuracy mask (threshold)''),
    (''CFG-NAVSPG-CONSTR_ALT'', 0x401100C1, ''I4'', ScaleFloat ''0.01'', ''m'',
      ''Fixed altitude (mean sea level) for 2D fix mode''),
    (''CFG-NAVSPG-CONSTR_ALTVAR'', 0x401100C2, ''U4'', ScaleFloat ''0.0001'', ''M^2'',
      ''Fixed altitude variance for 2D mode''),
    (''CFG-NAVSPG-CONSTR_DGNSSTO'', 0x201100C4, ''U1'', ScaleInt 1, ''s'',
      ''DGNSS timeout''),
    (''CFG-NMEA-PROTVER'', 0x20930001, ''E1'', ScaleInt 1, '''',
      ''NMEA protocol version''),
    (''CFG-NMEA-MAXSVS'', 0x20930002, ''E1'', ScaleInt 1, '''',
      ''Maximum number of SVs to report per Talker ID''),
    (''CFG-NMEA-COMPAT'', 0x10930003, ''L'', ScaleInt 1, '''',
      ''Enable compatibility mode''),
    (''CFG-NMEA-CONSIDER'', 0x10930004, ''L'', ScaleInt 1, '''',
      ''Enable considering mode''),
    (''CFG-NMEA-LIMIT82'', 0x10930005, ''L'', ScaleInt 1, '''',
      ''Enable strict limit to 82 characters maximum NMEA message length''),
    (''CFG-NMEA-HIGHPREC'', 0x10930006, ''L'', ScaleInt 1, '''',
      ''Enable high precision mode''),
    (''CFG-NMEA-SVNUMBERING'', 0x20930007, ''E1'', ScaleInt 1, '''',
      ''Display configuration for SVs that have no value defined in NMEA''),
    (''CFG-NMEA-FILT_GPS'', 0x10930011, ''L'', ScaleInt 1, '''',
      ''Disable reporting of GPS satellites''),
    (''CFG-NMEA-FILT_SBAS'', 0x10930012, ''L'', ScaleInt 1, '''',
      ''Disable reporting of SBAS satellites''),
    (''CFG-NMEA-FILT_QZSS'', 0x10930015, ''L'', ScaleInt 1, '''',
      ''Disable reporting of QZSS satellites''),
    (''CFG-NMEA-FILT_GLO'', 0x10930016, ''L'', ScaleInt 1, '''',
      ''Disable reporting of GLONASS satellites''),
    (''CFG-NMEA-FILT_BDS'', 0x10930017, ''L'', ScaleInt 1, '''',
      ''Disable reporting of BeiDou satellites''),
    (''CFG-NMEA-OUT_INVFIX'', 0x10930021, ''L'', ScaleInt 1, '''',
      ''Enable position output for failed or invalid fixes''),
    (''CFG-NMEA-OUT_MSKFIX'', 0x10930022, ''L'', ScaleInt 1, '''',
      ''Enable position output for invalid fixes'')]"

definition cfgs_part13 :: "cfg_item list" where
  "cfgs_part13 = [
    (''CFG-NMEA-OUT_INVTIME'', 0x10930023, ''L'', ScaleInt 1, '''',
      ''Enable time output for invalid times''),
    (''CFG-NMEA-OUT_INVDATE'', 0x10930024, ''L'', ScaleInt 1, '''',
      ''Enable date output for invalid dates''),
    (''CFG-NMEA-OUT_ONLYGPS'', 0x10930025, ''L'', ScaleInt 1, '''',
      ''Restrict output to GPS satellites only''),
    (''CFG-NMEA-OUT_FROZENCOG'', 0x10930026, ''L'', ScaleInt 1, '''',
      ''Enable course over ground output even if it is frozen''),
    (''CFG-NMEA-MAINTALKERID'', 0x20930031, ''E1'', ScaleInt 1, '''',
      ''Main Talker ID''),
    (''CFG-NMEA-GSVTALKERID'', 0x20930032, ''E1'', ScaleInt 1, '''',
      ''Talker ID for GSV NMEA messages''),
    (''CFG-NMEA-BDSTALKERID'', 0x30930033, ''U2'', ScaleInt 1, '''',
      ''BeiDou Talker ID''),
    (''CFG-ODO-USE_ODO'', 0x10220001, ''L'', ScaleInt 1, '''',
      ''Use odometer''),
    (''CFG-ODO-USE_COG'', 0x10220002, ''L'', ScaleInt 1, '''',
      ''Use low-speed course over ground filter''),
    (''CFG-ODO-OUTLPVEL'', 0x10220003, ''L'', ScaleInt 1, '''',
      ''Output low-pass filtered velocity''),
    (''CFG-ODO-OUTLPCOG'', 0x10220004, ''L'', ScaleInt 1, '''',
      ''Output low-pass filtered course over ground (heading)''),
    (''CFG-ODO-PROFILE'', 0x20220005, ''E1'', ScaleInt 1, '''',
      ''Odometer profile configuration''),
    (''CFG-ODO-COGMAXSPEED'', 0x20220021, ''U1'', ScaleInt 1, ''m/s'',
      ''Upper speed limit for low-speed course over ground filter''),
    (''CFG-ODO-COGMAXPOSACC'', 0x20220022, ''U1'', ScaleInt 1, '''',
      ''Maximum acceptable position accuracy for computing low-speed  filtered course over ground''),
    (''CFG-ODO-COGLPGAIN'', 0x20220032, '''', ScaleInt 1, '''',
      ''Course over ground low-pass filter level (at speed < 8 m/s)''),
    (''CFG-ODO-VELLPGAIN'', 0x20220031, ''U1'', ScaleInt 1, '''',
      ''Velocity low-pass filter level''),
    (''CFG-RATE-MEAS'', 0x30210001, ''U2'', ScaleFloat ''0.001'', ''s'',
      ''Nominal time between GNSS measurements''),
    (''CFG-RATE-NAV'', 0x30210002, ''U2'', ScaleInt 1, '''',
      ''Ratio of number of measurements to number of navigation solutions''),
    (''CFG-RATE-TIMEREF'', 0x20210003, ''E1'', ScaleInt 1, '''',
      ''Time system to which measurements are aligned''),
    (''CFG-RINV-DUMP'', 0x10C70001, ''L'', ScaleInt 1, '''',
      ''Dump data at startup''),
    (''CFG-RINV-BINARY'', 0x10C70002, ''L'', ScaleInt 1, '''',
      ''Data is binary''),
    (''CFG-RINV-DATA_SIZE'', 0x20C70003, ''U1'', ScaleInt 1, '''',
      ''Size of data''),
    (''CFG-RINV-CHUNK0'', 0x50C70004, ''X8'', ScaleInt 1, '''',
      ''Data bytes 1-8 (LSB)''),
    (''CFG-RINV-CHUNK1'', 0x50C70005, ''X8'', ScaleInt 1, '''',
      ''Data bytes 9-16''),
    (''CFG-RINV-CHUNK2'', 0x50C70006, ''X8'', ScaleInt 1, '''',
      ''Data bytes 17-24''),
    (''CFG-RINV-CHUNK3'', 0x50C70007, ''X8'', ScaleInt 1, '''',
      ''Data bytes 25-30 (MSB)''),
    (''CFG-SBAS-USE_TESTMODE'', 0x10360002, ''L'', ScaleInt 1, '''',
      ''Use SBAS data when it is in test mode''),
    (''CFG-SBAS-USE_RANGING'', 0x10360003, ''L'', ScaleInt 1, '''',
      ''Use SBAS GEOs as a ranging source (for navigation)''),
    (''CFG-SBAS-USE_DIFFCORR'', 0x10360004, ''L'', ScaleInt 1, '''',
      ''Use SBAS differential corrections''),
    (''CFG-SBAS-USE_INTEGRITY'', 0x10360005, ''L'', ScaleInt 1, '''',
      ''Use SBAS integrity information''),
    (''CFG-SBAS-PRNSCANMASK'', 0x50360006, ''X8'', ScaleInt 1, '''',
      ''SBAS PRN search configuration''),
    (''CFG-SIGNAL-GPS_ENA'', 0x1031001F, ''L'', ScaleInt 1, '''',
      ''GPS enable''),
    (''CFG-SIGNAL-GPS_L1CA_ENA'', 0x10310001, ''L'', ScaleInt 1, '''',
      ''GPS L1C/A''),
    (''CFG-SIGNAL-GPS_L2C_ENA'', 0x10310003, ''L'', ScaleInt 1, '''',
      ''GPS L2C''),
    (''CFG-SIGNAL-SBAS_ENA'', 0x10310020, ''L'', ScaleInt 1, '''',
      ''SBAS enable''),
    (''CFG-SIGNAL-SBAS_L1CA_ENA'', 0x10310005, ''L'', ScaleInt 1, '''',
      ''SBAS L1C/A''),
    (''CFG-SIGNAL-GAL_ENA'', 0x10310021, ''L'', ScaleInt 1, '''',
      ''Galileo enable''),
    (''CFG-SIGNAL-GAL_E1_ENA'', 0x10310007, ''L'', ScaleInt 1, '''',
      ''Galileo E1''),
    (''CFG-SIGNAL-GAL_E5B_ENA'', 0x1031000A, ''L'', ScaleInt 1, '''',
      ''Galileo E5b''),
    (''CFG-SIGNAL-BDS_ENA'', 0x10310022, ''L'', ScaleInt 1, '''',
      ''BeiDou Enable'')]"

definition cfgs_part14 :: "cfg_item list" where
  "cfgs_part14 = [
    (''CFG-SIGNAL-BDS_B1_ENA'', 0x1031000D, ''L'', ScaleInt 1, '''',
      ''BeiDou B1I''),
    (''CFG-SIGNAL-BDS_B2_ENA'', 0x1031000E, ''L'', ScaleInt 1, '''',
      ''BeiDou B2I''),
    (''CFG-SIGNAL-QZSS_ENA'', 0x10310024, ''L'', ScaleInt 1, '''',
      ''QZSS enable''),
    (''CFG-SIGNAL-QZSS_L1CA_ENA'', 0x10310012, ''L'', ScaleInt 1, '''',
      ''QZSS L1C/A''),
    (''CFG-SIGNAL-QZSS_L1S_ENA'', 0x10310014, ''L'', ScaleInt 1, '''',
      ''QZSS L1S''),
    (''CFG-SIGNAL-QZSS_L2C_ENA'', 0x10310015, ''L'', ScaleInt 1, '''',
      ''QZSS L2C''),
    (''CFG-SIGNAL-GLO_ENA'', 0x10310025, ''L'', ScaleInt 1, '''',
      ''GLONASS enable''),
    (''CFG-SIGNAL-GLO_L1_ENA'', 0x10310018, ''L'', ScaleInt 1, '''',
      ''GLONASS L1''),
    (''CFG-SIGNAL-GLO_L2_ENA'', 0x1031001A, ''L'', ScaleInt 1, '''',
      ''GLONASS L2''),
    (''CFG-SPI-MAXFF'', 0x20640001, ''U1'', ScaleInt 1, '''',
      ''Number of bytes containing 0xFF to receive before switching off reception.''),
    (''CFG-SPI-CPOLARITY'', 0x10640002, ''L'', ScaleInt 1, '''',
      ''Clock polarity select''),
    (''CFG-SPI-CPHASE'', 0x10640003, ''L'', ScaleInt 1, '''',
      ''Clock phase select''),
    (''CFG-SPI-EXTENDEDTIMEOUT'', 0x10640005, ''L'', ScaleInt 1, '''',
      ''Flag to disable timeouting the interface after 1.5s''),
    (''CFG-SPI-ENABLED'', 0x10640006, ''L'', ScaleInt 1, '''',
      ''Flag to indicate if the SPI interface should be enabled''),
    (''CFG-SPIINPROT-UBX'', 0x10790001, ''L'', ScaleInt 1, '''',
      ''Flag to indicate if UBX should be an input protocol on SPI''),
    (''CFG-SPIINPROT-NMEA'', 0x10790002, ''L'', ScaleInt 1, '''',
      ''Flag to indicate if NMEA should be an input protocol on SPI''),
    (''CFG-SPIINPROT-RTCM2X'', 0x10790003, ''L'', ScaleInt 1, '''',
      ''Flag to indicate if RTCM2X should be an input protocol on SPI''),
    (''CFG-SPIINPROT-RTCM3X'', 0x10790004, ''L'', ScaleInt 1, '''',
      ''Flag to indicate if RTCM3X should be an input protocol on SPI''),
    (''CFG-SPIOUTPROT-UBX'', 0x107A0001, ''L'', ScaleInt 1, '''',
      ''Flag to indicate if UBX should be an output protocol on SPI''),
    (''CFG-SPIOUTPROT-NMEA'', 0x107A0002, ''L'', ScaleInt 1, '''',
      ''Flag to indicate if NMEA should be an output protocol on SPI''),
    (''CFG-SPIOUTPROT-RTCM3X'', 0x107A0004, ''L'', ScaleInt 1, '''',
      ''Flag to indicate if RTCM3X should be an output protocol on SPI''),
    (''CFG-TMODE-MODE'', 0x20030001, ''E1'', ScaleInt 1, '''',
      ''Receiver mode''),
    (''CFG-TMODE-POS_TYPE'', 0x20030002, ''E1'', ScaleInt 1, '''',
      ''Determines whether the ARP position is given in ECEF or LAT/LON/HEIGHT?''),
    (''CFG-TMODE-ECEF_X'', 0x40030003, ''I4'', ScaleInt 1, ''cm'',
      ''ECEF X coordinate of the ARP position.''),
    (''CFG-TMODE-ECEF_Y'', 0x40030004, ''I4'', ScaleInt 1, ''cm'',
      ''ECEF Y coordinate of the ARP position.''),
    (''CFG-TMODE-ECEF_Z'', 0x40030005, ''I4'', ScaleInt 1, ''cm'',
      ''ECEF Z coordinate of the ARP position.''),
    (''CFG-TMODE-ECEF_X_HP'', 0x20030006, ''I1'', ScaleFloat ''0.1'', ''mm'',
      ''High-precision ECEF X coordinate of the ARP position.''),
    (''CFG-TMODE-ECEF_Y_HP'', 0x20030007, ''I1'', ScaleFloat ''0.1'', ''mm'',
      ''High-precision ECEF Y coordinate of the ARP position.''),
    (''CFG-TMODE-ECEF_Z_HP'', 0x20030008, ''I1'', ScaleFloat ''0.1'', ''mm'',
      ''High-precision ECEF Z coordinate of the ARP position.''),
    (''CFG-TMODE-LAT'', 0x40030009, ''I4'', ScaleFloat ''1e-7'', ''deg'',
      ''Latitude of the ARP position.''),
    (''CFG-TMODE-LON'', 0x4003000A, ''I4'', ScaleFloat ''1e-7'', ''deg'',
      ''Longitude of the ARP position.''),
    (''CFG-TMODE-HEIGHT'', 0x4003000B, ''I4'', ScaleInt 1, ''cm'',
      ''Height of the ARP position.''),
    (''CFG-TMODE-LAT_HP'', 0x2003000C, ''I1'', ScaleFloat ''1e-9'', ''deg'',
      ''High-precision latitude of the ARP position''),
    (''CFG-TMODE-LON_HP'', 0x2003000D, ''I1'', ScaleFloat ''1e-9'', ''deg'',
      ''High-precision longitude of the ARP position.''),
    (''CFG-TMODE-HEIGHT_HP'', 0x2003000E, ''I1'', ScaleFloat ''0.1'', ''mm'',
      ''High-precision height of the ARP position.''),
    (''CFG-TMODE-FIXED_POS_ACC'', 0x4003000F, ''U4'', ScaleFloat ''0.1'', ''mm'',
      ''Fixed position 3D accuracy''),
    (''CFG-TMODE-SVIN_MIN_DUR'', 0x40030010, ''U4'', ScaleInt 1, ''s'',
      ''Survey-in minimum duration''),
    (''CFG-TMODE-SVIN_ACC_LIMIT'', 0x40030011, ''U4'', ScaleFloat ''0.1'', ''mm'',
      ''Survey-in position accuracy limit''),
    (''CFG-TP-PULSE_DEF'', 0x20050023, ''E1'', ScaleInt 1, '''',
      ''Determines whether the time pulse is interpreted as frequency or period?''),
    (''CFG-TP-PULSE_LENGTH_DEF'', 0x20050030, ''E1'', ScaleInt 1, '''',
      ''Determines whether the time pulse length is interpreted as length[us] or pulse ratio[%]?'')]"

definition cfgs_part15 :: "cfg_item list" where
  "cfgs_part15 = [
    (''CFG-TP-ANT_CABLEDELAY'', 0x30050001, ''I2'', ScaleFloat ''0.000000001'', ''s'',
      ''Antenna cable delay''),
    (''CFG-TP-PERIOD_TP1'', 0x40050002, ''U4'', ScaleFloat ''0.000001'', ''s'',
      ''Time pulse period (TP1)''),
    (''CFG-TP-PERIOD_LOCK_TP1'', 0x40050003, ''U4'', ScaleFloat ''0.000001'', ''s'',
      ''Time pulse period when locked to GNSS time (TP1)''),
    (''CFG-TP-FREQ_TP1'', 0x40050024, ''U4'', ScaleInt 1, ''Hz'',
      ''Time pulse frequency (TP1)''),
    (''CFG-TP-FREQ_LOCK_TP1'', 0x40050025, ''U4'', ScaleInt 1, ''Hz'',
      ''Time pulse frequency when locked to GNSS time (TP1)''),
    (''CFG-TP-LEN_TP1'', 0x40050004, ''U4'', ScaleFloat ''0.000001'', ''s'',
      ''Time pulse length (TP1)''),
    (''CFG-TP-LEN_LOCK_TP1'', 0x40050005, ''U4'', ScaleFloat ''0.000001'', ''s'',
      ''Time pulse length when locked to GNSS time (TP1)''),
    (''CFG-TP-DUTY_TP1'', 0x5005002A, ''R8'', ScaleInt 1, ''%'',
      ''Time pulse duty cycle (TP1)''),
    (''CFG-TP-DUTY_LOCK_TP1'', 0x5005002B, ''R8'', ScaleInt 1, ''%'',
      ''Time pulse duty cycle when locked to GNSS time (TP1)''),
    (''CFG-TP-USER_DELAY_TP1'', 0x40050006, ''I4'', ScaleFloat ''0.000000001'', ''s'',
      ''User configurable time pulse delay (TP1)''),
    (''CFG-TP-TP1_ENA'', 0x10050007, ''L'', ScaleInt 1, '''',
      ''Enable the first timepulse''),
    (''CFG-TP-SYNC_GNSS_TP1'', 0x10050008, ''L'', ScaleInt 1, '''',
      ''Sync time pulse to GNSS time or local clock (TP1)''),
    (''CFG-TP-USE_LOCKED_TP1'', 0x10050009, ''L'', ScaleInt 1, '''',
      ''Use locked parameters when possible (TP1)''),
    (''CFG-TP-ALIGN_TO_TOW_TP1'', 0x1005000A, ''L'', ScaleInt 1, '''',
      ''Align time pulse to top of second (TP1)''),
    (''CFG-TP-POL_TP1'', 0x1005000B, ''L'', ScaleInt 1, '''',
      ''Set time pulse polarity (TP1)''),
    (''CFG-TP-TIMEGRID_TP1'', 0x2005000C, ''E1'', ScaleInt 1, '''',
      ''Time grid to use (TP1)''),
    (''CFG-TP-PERIOD_TP2'', 0x4005000D, ''U4'', ScaleFloat ''0.000001'', ''s'',
      ''Time pulse period (TP2)''),
    (''CFG-TP-PERIOD_LOCK_TP2'', 0x4005000E, ''U4'', ScaleFloat ''0.000001'', ''s'',
      ''Time pulse period when locked to GNSS time (TP2)''),
    (''CFG-TP-FREQ_TP2'', 0x40050026, ''U4'', ScaleInt 1, ''Hz'',
      ''Time pulse frequency (TP2)''),
    (''CFG-TP-FREQ_LOCK_TP2'', 0x40050027, ''U4'', ScaleInt 1, ''Hz'',
      ''Time pulse frequency when locked to GNSS time (TP2)''),
    (''CFG-TP-LEN_TP2'', 0x4005000F, ''U4'', ScaleFloat ''0.000001'', ''s'',
      ''Time pulse length (TP2)''),
    (''CFG-TP-LEN_LOCK_TP2'', 0x40050010, ''U4'', ScaleFloat ''0.000001'', ''s'',
      ''Time pulse length when locked to GNSS time (TP2)''),
    (''CFG-TP-DUTY_TP2'', 0x5005002C, ''R8'', ScaleInt 1, ''%'',
      ''Time pulse duty cycle (TP2)''),
    (''CFG-TP-DUTY_LOCK_TP2'', 0x5005002D, ''R8'', ScaleInt 1, ''%'',
      ''Time pulse duty cycle when locked to GNSS time (TP2)''),
    (''CFG-TP-USER_DELAY_TP2'', 0x40050011, ''I4'', ScaleFloat ''0.000000001'', ''s'',
      ''User configurable time pulse delay (TP2)''),
    (''CFG-TP-TP2_ENA'', 0x10050012, ''L'', ScaleInt 1, '''',
      ''Enable the second timepulse''),
    (''CFG-TP-SYNC_GNSS_TP2'', 0x10050013, ''L'', ScaleInt 1, '''',
      ''Sync time pulse to GNSS time or local clock (TP2)''),
    (''CFG-TP-USE_LOCKED_TP2'', 0x10050014, ''L'', ScaleInt 1, '''',
      ''Use locked parameters when possible (TP2)''),
    (''CFG-TP-ALIGN_TO_TOW_TP2'', 0x10050015, ''L'', ScaleInt 1, '''',
      ''Align time pulse to top of second (TP2)''),
    (''CFG-TP-POL_TP2'', 0x10050016, ''L'', ScaleInt 1, '''',
      ''Set time pulse polarity (TP2)''),
    (''CFG-TP-TIMEGRID_TP2'', 0x20050017, ''E1'', ScaleInt 1, '''',
      ''Time grid to use (TP2)''),
    (''CFG-UART1-BAUDRATE'', 0x40520001, ''U4'', ScaleInt 1, '''',
      ''The baud rate that should be configured on the UART1''),
    (''CFG-UART1-STOPBITS'', 0x20520002, ''E1'', ScaleInt 1, '''',
      ''Number of stopbits that should be used on UART1''),
    (''CFG-UART1-DATABITS'', 0x20520003, ''E1'', ScaleInt 1, '''',
      ''Number of databits that should be used on UART1''),
    (''CFG-UART1-PARITY'', 0x20520004, ''E1'', ScaleInt 1, '''',
      ''Parity mode that should be used on UART1''),
    (''CFG-UART1-ENABLED'', 0x10520005, ''L'', ScaleInt 1, '''',
      ''Flag to indicate if the UART1 should be enabled''),
    (''CFG-UART1INPROT-UBX'', 0x10730001, ''L'', ScaleInt 1, '''',
      ''Flag to indicate if UBX should be an input protocol on UART1''),
    (''CFG-UART1INPROT-NMEA'', 0x10730002, ''L'', ScaleInt 1, '''',
      ''Flag to indicate if NMEA should be an input protocol on UART1''),
    (''CFG-UART1INPROT-RTCM2X'', 0x10730003, ''L'', ScaleInt 1, '''',
      ''Flag to indicate if RTCM2X should be an input protocol on UART1''),
    (''CFG-UART1INPROT-RTCM3X'', 0x10730004, ''L'', ScaleInt 1, '''',
      ''Flag to indicate if RTCM3X should be an input protocol on UART1'')]"

definition cfgs_part16 :: "cfg_item list" where
  "cfgs_part16 = [
    (''CFG-UART1OUTPROT-UBX'', 0x10740001, ''L'', ScaleInt 1, '''',
      ''Flag to indicate if UBX should be an output protocol on UART1''),
    (''CFG-UART1OUTPROT-NMEA'', 0x10740002, ''L'', ScaleInt 1, '''',
      ''Flag to indicate if NMEA should be an output protocol on UART1''),
    (''CFG-UART1OUTPROT-RTCM3X'', 0x10740004, ''L'', ScaleInt 1, '''',
      ''Flag to indicate if RTCM3X should be an output protocol on UART1''),
    (''CFG-UART2-BAUDRATE'', 0x40530001, ''U4'', ScaleInt 1, '''',
      ''The baud rate that should be configured on the UART2''),
    (''CFG-UART2-STOPBITS'', 0x20530002, ''E1'', ScaleInt 1, '''',
      ''Number of stopbits that should be used on UART2''),
    (''CFG-UART2-DATABITS'', 0x20530003, ''E1'', ScaleStr ''1'', '''',
      ''Number of databits that should be used on UART2''),
    (''CFG-UART2-PARITY'', 0x20530004, ''E1'', ScaleStr ''1'', '''',
      ''Parity mode that should be used on UART2''),
    (''CFG-UART2-ENABLED'', 0x10530005, ''L'', ScaleStr ''1'', '''',
      ''Flag to indicate if the UART2 should be enabled''),
    (''CFG-UART2-REMAP'', 0x10530006, ''L'', ScaleStr ''1'', '''',
      ''UART2 Remapping''),
    (''CFG-UART2INPROT-UBX'', 0x10750001, ''L'', ScaleInt 1, '''',
      ''Flag to indicate if UBX should be an input protocol on UART2''),
    (''CFG-UART2INPROT-NMEA'', 0x10750002, ''L'', ScaleInt 1, '''',
      ''Flag to indicate if NMEA should be an input protocol on UART2''),
    (''CFG-UART2INPROT-RTCM2X'', 0x10750003, ''L'', ScaleInt 1, '''',
      ''Flag to indicate if RTCM2X should be an input protocol on UART2''),
    (''CFG-UART2INPROT-RTCM3X'', 0x10750004, ''L'', ScaleInt 1, '''',
      ''Flag to indicate if RTCM3X should be an input protocol on UART2''),
    (''CFG-UART2OUTPROT-UBX'', 0x10760001, ''L'', ScaleInt 1, '''',
      ''Flag to indicate if UBX should be an output protocol on UART2''),
    (''CFG-UART2OUTPROT-NMEA'', 0x10760002, ''L'', ScaleInt 1, '''',
      ''Flag to indicate if NMEA should be an output protocol on UART2''),
    (''CFG-UART2OUTPROT-RTCM3X'', 0x10760004, ''L'', ScaleInt 1, '''',
      ''Flag to indicate if RTCM3X should be an output protocol on UART2''),
    (''CFG-USB-ENABLED'', 0x10650001, ''L'', ScaleInt 1, '''',
      ''Flag to indicate if the USB interface should be enabled''),
    (''CFG-USB-SELFPOW'', 0x10650002, ''L'', ScaleInt 1, '''',
      ''Self-Powered device''),
    (''CFG-USB-VENDOR_ID'', 0x3065000A, ''U2'', ScaleInt 1, '''',
      ''Vendor ID''),
    (''CFG-USB-PRODUCT_ID'', 0x3065000B, ''U2'', ScaleInt 1, '''',
      ''Product ID''),
    (''CFG-USB-POWER'', 0x3065000C, ''U2'', ScaleInt 1, ''mA'',
      ''Power consumption''),
    (''CFG-USB-VENDOR_STR0'', 0x5065000D, ''X8'', ScaleInt 1, '''',
      ''Vendor string characters 0-7''),
    (''CFG-USB-VENDOR_STR1'', 0x5065000E, ''X8'', ScaleInt 1, '''',
      ''Vendor string characters 8-15''),
    (''CFG-USB-VENDOR_STR2'', 0x5065000F, ''X8'', ScaleInt 1, '''',
      ''Vendor string characters 16-23''),
    (''CFG-USB-VENDOR_STR3'', 0x50650010, ''X8'', ScaleInt 1, '''',
      ''Vendor string characters 24-31''),
    (''CFG-USB-PRODUCT_STR0'', 0x50650011, ''X8'', ScaleInt 1, '''',
      ''Product string characters 0-7''),
    (''CFG-USB-PRODUCT_STR1'', 0x50650012, ''X8'', ScaleInt 1, '''',
      ''Product string characters 8-15''),
    (''CFG-USB-PRODUCT_STR2'', 0x50650013, ''X8'', ScaleInt 1, '''',
      ''Product string characters 16-23''),
    (''CFG-USB-PRODUCT_STR3'', 0x50650014, ''X8'', ScaleInt 1, '''',
      ''Product string characters 24-31''),
    (''CFG-USB-SERIAL_NO_STR0'', 0x50650015, ''X8'', ScaleInt 1, '''',
      ''Serial number string characters 0-7''),
    (''CFG-USB-SERIAL_NO_STR1'', 0x50650016, ''X8'', ScaleInt 1, '''',
      ''Serial number string characters 8-15''),
    (''CFG-USB-SERIAL_NO_STR2'', 0x50650017, ''X8'', ScaleInt 1, '''',
      ''Serial number string characters 16-23''),
    (''CFG-USB-SERIAL_NO_STR3'', 0x50650018, ''X8'', ScaleInt 1, '''',
      ''Serial number string characters 24-31''),
    (''CFG-USBINPROT-UBX'', 0x10770001, ''L'', ScaleInt 1, '''',
      ''Flag to indicate if UBX should be an input protocol on USB''),
    (''CFG-USBINPROT-NMEA'', 0x10770002, ''L'', ScaleInt 1, '''',
      ''Flag to indicate if NMEA should be an input protocol on USB''),
    (''CFG-USBINPROT-RTCM2X'', 0x10770003, ''L'', ScaleInt 1, '''',
      ''Flag to indicate if RTCM2X should be an input protocol on USB''),
    (''CFG-USBINPROT-RTCM3X'', 0x10770004, ''L'', ScaleInt 1, '''',
      ''Flag to indicate if RTCM3X should be an input protocol on USB''),
    (''CFG-USBOUTPROT-UBX'', 0x10780001, ''L'', ScaleInt 1, '''',
      ''Flag to indicate if UBX should be an output protocol on USB''),
    (''CFG-USBOUTPROT-NMEA'', 0x10780002, ''L'', ScaleInt 1, '''',
      ''Flag to indicate if NMEA should be an output protocol on USB''),
    (''CFG-USBOUTPROT-RTCM3X'', 0x10780004, ''L'', ScaleInt 1, '''',
      ''Flag to indicate if RTCM3X should be an output protocol on USB'')]"

definition cfgs :: "cfg_item list" where
  "cfgs =
     cfgs_part1 @ cfgs_part2 @ cfgs_part3 @ cfgs_part4 @
     cfgs_part5 @ cfgs_part6 @ cfgs_part7 @ cfgs_part8 @
     cfgs_part9 @ cfgs_part10 @ cfgs_part11 @ cfgs_part12 @
     cfgs_part13 @ cfgs_part14 @ cfgs_part15 @ cfgs_part16"

text \<open>
  \<^verbatim>\<open>cfg_by_key(self, key)\<close>. The loop returns the first item whose key (\<^verbatim>\<open>item[1]\<close>)
  equals \<^verbatim>\<open>key\<close>. After the loop the first statement builds the name with
  \<^verbatim>\<open>"CFG-%u-%u" % ((key >> 16) & 0xff, ket & 0xff)\<close>; no variable \<^verbatim>\<open>ket\<close> exists in the
  function or the module, so evaluating the operand raises \<^verbatim>\<open>NameError\<close> and the rest of
  the function (the size map and the construction of the item) is never reached.
\<close>

fun cfg_find :: "cfg_item list \<Rightarrow> int \<Rightarrow> cfg_item option" where
  "cfg_find [] key = None"
| "cfg_find (item # items) key = (if fst (snd item) = key then Some item else cfg_find items key)"

definition cfg_by_key :: "int \<Rightarrow> error + cfg_item" where
  "cfg_by_key key =
     (case cfg_find cfgs key of
        Some item \<Rightarrow> Inr item
      | None \<Rightarrow> Inl (NameError ''ket''))"

section \<open>Properties of the checksum\<close>

lemma spec_checksum_step_pair:
  "spec_checksum_step (x, y) c = ((x + uint c) mod 256, (y + (x + uint c) mod 256) mod 256)"
  by (simp add: spec_checksum_step_def Let_def)

lemma checksum_loop_mod:
  "(case checksum_loop a b cs of (x, y) \<Rightarrow> (x mod 256, y mod 256)) =
   foldl spec_checksum_step (a mod 256, b mod 256) cs"
proof (induction cs arbitrary: a b)
  case Nil
  show ?case by simp
next
  case (Cons c cs)
  have a: "(a mod 256 + uint c) mod 256 = (a + uint c) mod 256"
    by (rule mod_add_left_eq)
  have b: "(b mod 256 + (a + uint c) mod 256) mod 256 = (b + (a + uint c)) mod 256"
    by (rule mod_add_eq)
  have "foldl spec_checksum_step (a mod 256, b mod 256) (c # cs) =
        foldl spec_checksum_step ((a + uint c) mod 256, (b + (a + uint c)) mod 256) cs"
    by (simp only: foldl_Cons spec_checksum_step_pair a b)
  then show ?case
    by (simp only: checksum_loop.simps Cons.IH)
qed

lemma and_255_mod: "(x::int) AND 0xff = x mod 256"
proof -
  have "x AND mask 8 = take_bit 8 x" by (simp only: take_bit_eq_mask)
  then show ?thesis by (simp add: take_bit_eq_mod mask_eq_exp_minus_1)
qed

text \<open>
  Claim C7: for every byte sequence, checksum (mask once at the end) returns the pair
  obtained by folding the modulo-at-every-step update of the specification over the
  bytes \<^verbatim>\<open>msg[0:m_len]\<close> in order, starting from (0, 0).
\<close>

theorem checksum_refines_spec:
  "checksum msg m_len = spec_checksum (take m_len msg)"
  using checksum_loop_mod [of 0 0 "take m_len msg"]
  by (simp add: checksum_def spec_checksum_def and_255_mod split: prod.splits)

section \<open>Properties of the payload decoders\<close>

lemma le_uint_bounds: "0 \<le> le_uint bs \<and> le_uint bs < 256 ^ length bs"
proof (induction bs)
  case Nil show ?case by simp
next
  case (Cons b bs)
  have "0 \<le> uint b" "uint b < 256" using uint_lt2p [of b] by simp_all
  with Cons show ?case by simp
qed

lemma le_uint_horner: "le_uint bs = horner_sum uint (256::int) bs"
  by (induction bs) simp_all

lemma signed_take_bit_range:
  fixes v :: int
  assumes "0 \<le> v" "v < 2 ^ Suc n"
  shows "signed_take_bit n v = (if 2 ^ n \<le> v then v - 2 ^ Suc n else v)"
proof (cases "2 ^ n \<le> v")
  case True
  have "(v + 2 ^ n) mod 2 ^ Suc n = (v + 2 ^ n - 2 ^ Suc n) mod 2 ^ Suc n"
    by (metis mod_diff_right_eq mod_self diff_zero)
  also have "\<dots> = v + 2 ^ n - 2 ^ Suc n"
    using True assms by (intro mod_pos_pos_trivial) simp_all
  finally show ?thesis using True
    by (simp add: signed_take_bit_eq_take_bit_shift take_bit_eq_mod)
next
  case False
  then have "(v + 2 ^ n) mod 2 ^ Suc n = v + 2 ^ n"
    using assms by (intro mod_pos_pos_trivial) simp_all
  then show ?thesis using False
    by (simp add: signed_take_bit_eq_take_bit_shift take_bit_eq_mod)
qed

lemma field_value_Fl:
  assumes "length bs = 4"
  shows "field_value Fl bs = sint (word_rcat (rev bs) :: 32 word)"
proof -
  have b: "0 \<le> le_uint bs" "le_uint bs < 2 ^ Suc 31"
    using le_uint_bounds [of bs] assms by simp_all
  have "sint (word_rcat (rev bs) :: 32 word) = signed_take_bit 31 (le_uint bs)"
    by (simp add: word_rcat_def sint_sbintrunc' le_uint_horner)
  also have "\<dots> = field_value Fl bs"
    using signed_take_bit_range [OF b] by (simp add: field_value_def Let_def)
  finally show ?thesis by simp
qed

lemma field_value_Fb: "field_value Fb [b] = sint b"
proof -
  have b: "0 \<le> uint b" "uint b < 2 ^ Suc 7"
    using uint_lt2p [of b] by simp_all
  have "sint b = signed_take_bit 7 (uint b)"
    by (simp add: sint_uint)
  then show ?thesis
    using signed_take_bit_range [OF b] by (simp add: field_value_def Let_def)
qed

lemma field_value_FB: "field_value FB [b] = uint b"
  by (simp add: field_value_def)

lemma take1_drop: "n < length xs \<Longrightarrow> take (Suc 0) (drop n xs) = [xs ! n]"
  by (simp add: take_Suc_conv_app_nth hd_drop_conv_nth take_Suc)

lemma map_of_dset: "map_of (dset d k v) k' = (if k' = k then Some v else map_of d k')"
  by (induction d) auto

text \<open>Of several assignments to one key, the last one is what a later read sees.\<close>

lemma dget_dset_all:
  "dget (dset_all d kvs) k = (case map_of (rev kvs) k of Some v \<Rightarrow> Some v | None \<Rightarrow> dget d k)"
proof (induction kvs arbitrary: d)
  case Nil
  show ?case by (simp add: dset_all_def)
next
  case (Cons kv kvs)
  have "dget (dset_all d (kv # kvs)) k = dget (dset_all (dset d (fst kv) (snd kv)) kvs) k"
    by (simp add: dset_all_def)
  also have "\<dots> = (case map_of (rev kvs) k of Some v \<Rightarrow> Some v
                      | None \<Rightarrow> dget (dset d (fst kv) (snd kv)) k)"
    by (rule Cons.IH)
  finally show ?case
    by (cases kv) (auto simp: dget_def map_of_dset map_add_def split: option.splits)
qed

lemma dget_Nil: "dget [] k = None"
  by (simp add: dget_def)

lemma hpposllh_unpack:
  assumes "36 \<le> length buf"
  shows "\<exists>u. unpack_from hpposllh_fmt buf 0 = Inr u
           \<and> u ! 5 = s32_le_at buf 8 \<and> u ! 6 = s32_le_at buf 12
           \<and> u ! 9 = s8_at buf 24 \<and> u ! 10 = s8_at buf 25"
proof -
  have l: "length (take 4 (drop 8 buf)) = 4" "length (take 4 (drop 12 buf)) = 4"
    using assms by simp_all
  have t: "take (Suc 0) (drop 24 buf) = [buf ! 24]" "take (Suc 0) (drop 25 buf) = [buf ! 25]"
    using assms by (simp_all add: take1_drop)
  have "unpack_from hpposllh_fmt buf 0 = Inr (unpack_fields hpposllh_fmt buf)"
    using assms by (simp add: unpack_from_def calcsize_def hpposllh_fmt_def)
  moreover have "unpack_fields hpposllh_fmt buf ! 5 = s32_le_at buf 8"
    by (simp add: hpposllh_fmt_def s32_le_at_def field_value_Fl [OF l(1)])
  moreover have "unpack_fields hpposllh_fmt buf ! 6 = s32_le_at buf 12"
    by (simp add: hpposllh_fmt_def s32_le_at_def field_value_Fl [OF l(2)])
  moreover have "unpack_fields hpposllh_fmt buf ! 9 = s8_at buf 24"
    by (simp add: hpposllh_fmt_def s8_at_def t field_value_Fb)
  moreover have "unpack_fields hpposllh_fmt buf ! 10 = s8_at buf 25"
    by (simp add: hpposllh_fmt_def s8_at_def t field_value_Fb)
  ultimately show ?thesis by blast
qed

text \<open>
  Claim C8: for every UBX-NAV-HPPOSLLH payload of at least 36 bytes the decoder returns
  prec_lon = round((lon + lonHp*1e-2)*1e-7, 9), and prec_lat likewise, where lon is the
  signed 32-bit little-endian field at offset 8 (lat at offset 12) and lonHp the signed
  8-bit field at offset 24 (latHp at offset 25). The floating-point expression is the
  one the code evaluates, operation for operation.
\<close>

theorem nav_hpposllh_prec:
  assumes "36 \<le> length buf"
  shows "field_of (nav_hpposllh buf) ''prec_lon'' =
           Some (PFloat (hp_degrees (s32_le_at buf 8) (s8_at buf 24)))
       \<and> field_of (nav_hpposllh buf) ''prec_lat'' =
           Some (PFloat (hp_degrees (s32_le_at buf 12) (s8_at buf 25)))"
proof -
  obtain u where u: "unpack_from hpposllh_fmt buf 0 = Inr u"
      "u ! 5 = s32_le_at buf 8" "u ! 6 = s32_le_at buf 12"
      "u ! 9 = s8_at buf 24" "u ! 10 = s8_at buf 25"
    using hpposllh_unpack [OF assms] by blast
  have ne: "buf \<noteq> []" using assms by auto
  show ?thesis
    using assms ne
    by (simp add: nav_hpposllh_def u Let_def dget_dset_all dget_Nil field_of_def hp_degrees_def
        int_plus_float_def int_times_float_def)
qed

text \<open>
  The example of the claim: raw lon = -741234567 and lonHp = 23 give
  round((-741234567 + 23*1e-2)*1e-7, 9).
\<close>

theorem nav_hpposllh_prec_witness:
  "36 \<le> length hp_example \<and>
   field_of (nav_hpposllh hp_example) ''prec_lon'' =
     Some (PFloat (FRound (FMul (FAdd (FOfInt (- 741234567)) (FMul (FOfInt 23) (FLit 1 (- 2))))
        (FLit 1 (- 7))) 9))"
proof -
  have h: "36 \<le> length hp_example" by (simp add: hp_example_def)
  have a: "s32_le_at hp_example 8 = - 741234567"
    by (simp add: hp_example_def s32_le_at_def word_rcat_def)
  have b: "s8_at hp_example 24 = 23"
    by (simp add: hp_example_def s8_at_def)
  show ?thesis using h nav_hpposllh_prec [OF h] by (simp add: a b hp_degrees_def)
qed

lemma and_bit_test: "(uint (b::byte) AND 2 ^ n \<noteq> 0) = bit b n"
  by (auto simp add: and_exp_eq_0_iff_not_bit bit_uint_iff dest: bit_imp_le_length)

lemma and_bit_tests:
  "(uint (b::byte) AND 1 \<noteq> 0) = bit b 0"
  "(uint b AND 2 \<noteq> 0) = bit b 1"
  "(uint b AND 4 \<noteq> 0) = bit b 2"
  "(uint b AND 8 \<noteq> 0) = bit b 3"
  "(uint b AND 32 \<noteq> 0) = bit b 5"
  "(uint b AND 64 \<noteq> 0) = bit b 6"
  "(uint b AND 128 \<noteq> 0) = bit b 7"
  using and_bit_test [of b 0] and_bit_test [of b 1] and_bit_test [of b 2] and_bit_test [of b 3]
    and_bit_test [of b 5] and_bit_test [of b 6] and_bit_test [of b 7]
  by simp_all

lemma map_of_rev_append:
  "map_of (rev (xs @ ys)) k = (case map_of (rev ys) k of Some v \<Rightarrow> Some v | None \<Rightarrow> map_of (rev xs) k)"
  by (simp add: map_add_def split: option.splits)

lemma pvt_unpack:
  assumes "84 \<le> length buf"
  shows "\<exists>u. unpack_from pvt_fmt buf 0 = Inr u \<and> u ! 7 = uint (buf ! 11)
           \<and> u ! 11 = uint (buf ! 21) \<and> u ! 12 = uint (buf ! 22)"
proof -
  have t: "take (Suc 0) (drop 21 buf) = [buf ! 21]" "take (Suc 0) (drop 11 buf) = [buf ! 11]"
     "take (Suc 0) (drop 22 buf) = [buf ! 22]"
    using assms by (simp_all add: take1_drop)
  have "unpack_from pvt_fmt buf 0 = Inr (unpack_fields pvt_fmt buf)"
    using assms by (simp add: unpack_from_def calcsize_def pvt_fmt_def)
  moreover have "unpack_fields pvt_fmt buf ! 7 = uint (buf ! 11)"
    by (simp add: pvt_fmt_def t field_value_FB)
  moreover have "unpack_fields pvt_fmt buf ! 11 = uint (buf ! 21)"
    by (simp add: pvt_fmt_def t field_value_FB)
  moreover have "unpack_fields pvt_fmt buf ! 12 = uint (buf ! 22)"
    by (simp add: pvt_fmt_def t field_value_FB)
  ultimately show ?thesis by blast
qed

text \<open>The protocol-15 extension adds three keys and leaves every other key alone.\<close>

lemma field_of_v15:
  assumes "k \<notin> {''headVeh'', ''magDec'', ''magAcc''}"
  shows "field_of (nav_pvt_v15 buf d) k = dget d k"
proof (cases "92 \<le> int (length buf)")
  case True
  then have "length buf \<ge> 81 + calcsize [Fl, Fh, FH]" by (simp add: calcsize_def)
  then show ?thesis using True assms
    by (simp add: nav_pvt_v15_def unpack_from_def dget_dset_all field_of_def)
next
  case False
  then show ?thesis by (simp add: nav_pvt_v15_def field_of_def)
qed

text \<open>What the decoder stores under each flag name, for any payload of at least 84 bytes.\<close>

lemma nav_pvt_carrSoln_value:
  assumes "84 \<le> length buf"
  shows "field_of (nav_pvt buf) ''carrSoln'' =
           Some (if bit (buf ! 21) 7 then PStr ''Fixed'' else PBool False)"
proof -
  obtain u where u: "unpack_from pvt_fmt buf 0 = Inr u" "u ! 11 = uint (buf ! 21)"
    using pvt_unpack [OF assms] by blast
  have ne: "buf \<noteq> []" using assms by auto
  show ?thesis
    using assms ne
    by (simp add: nav_pvt_def u Let_def field_of_v15 dget_dset_all dget_Nil and_bit_tests
        map_of_rev_append pvt_flag_fields_def)
qed

lemma nav_pvt_valid_flags:
  assumes "84 \<le> length buf"
  shows "field_of (nav_pvt buf) ''validDate'' = Some (PBool (bit (buf ! 11) 0))"
    and "field_of (nav_pvt buf) ''validTime'' = Some (PBool (bit (buf ! 11) 1))"
    and "field_of (nav_pvt buf) ''fullyResolved'' = Some (PBool (bit (buf ! 11) 2))"
    and "field_of (nav_pvt buf) ''validMAg'' = Some (PBool (bit (buf ! 11) 3))"
    and "field_of (nav_pvt buf) ''gnssFixOK'' = Some (PBool (bit (buf ! 21) 0))"
    and "field_of (nav_pvt buf) ''diffSoln'' = Some (PBool (bit (buf ! 21) 1))"
    and "field_of (nav_pvt buf) ''headVehValid'' = Some (PBool (bit (buf ! 21) 5))"
proof -
  obtain u where u: "unpack_from pvt_fmt buf 0 = Inr u" "u ! 7 = uint (buf ! 11)"
      "u ! 11 = uint (buf ! 21)"
    using pvt_unpack [OF assms] by blast
  have ne: "buf \<noteq> []" using assms by auto
  note defs = nav_pvt_def u Let_def field_of_v15 dget_dset_all dget_Nil and_bit_tests truthy_def
    map_of_rev_append pvt_flag_fields_def
  show "field_of (nav_pvt buf) ''validDate'' = Some (PBool (bit (buf ! 11) 0))"
    using assms ne by (simp add: defs)
  show "field_of (nav_pvt buf) ''validTime'' = Some (PBool (bit (buf ! 11) 1))"
    using assms ne by (simp add: defs)
  show "field_of (nav_pvt buf) ''fullyResolved'' = Some (PBool (bit (buf ! 11) 2))"
    using assms ne by (simp add: defs)
  show "field_of (nav_pvt buf) ''validMAg'' = Some (PBool (bit (buf ! 11) 3))"
    using assms ne by (simp add: defs)
  show "field_of (nav_pvt buf) ''gnssFixOK'' = Some (PBool (bit (buf ! 21) 0))"
    using assms ne by (simp add: defs)
  show "field_of (nav_pvt buf) ''diffSoln'' = Some (PBool (bit (buf ! 21) 1))"
    using assms ne by (simp add: defs)
  show "field_of (nav_pvt buf) ''headVehValid'' = Some (PBool (bit (buf ! 21) 5))"
    using assms ne by (simp add: defs)
qed

text \<open>
  The three fields listed under the comment \<^verbatim>\<open>#flags2 flags\<close> are bits 5 to 7 of the
  \<^verbatim>\<open>flags\<close> byte (offset 21); the \<^verbatim>\<open>flags2\<close> byte (offset 22) has no part in them.
\<close>

lemma nav_pvt_confirmed_flags:
  assumes "84 \<le> length buf"
  shows "field_of (nav_pvt buf) ''confirmedAvai'' = Some (PBool (bit (buf ! 21) 5))"
    and "field_of (nav_pvt buf) ''confirmedDate'' = Some (PBool (bit (buf ! 21) 6))"
    and "field_of (nav_pvt buf) ''confirmedTime'' = Some (PBool (bit (buf ! 21) 7))"
proof -
  obtain u where u: "unpack_from pvt_fmt buf 0 = Inr u" "u ! 11 = uint (buf ! 21)"
    using pvt_unpack [OF assms] by blast
  have ne: "buf \<noteq> []" using assms by auto
  note defs = nav_pvt_def u Let_def field_of_v15 dget_dset_all dget_Nil and_bit_tests truthy_def
    map_of_rev_append pvt_flag_fields_def
  show "field_of (nav_pvt buf) ''confirmedAvai'' = Some (PBool (bit (buf ! 21) 5))"
    using assms ne by (simp add: defs)
  show "field_of (nav_pvt buf) ''confirmedDate'' = Some (PBool (bit (buf ! 21) 6))"
    using assms ne by (simp add: defs)
  show "field_of (nav_pvt buf) ''confirmedTime'' = Some (PBool (bit (buf ! 21) 7))"
    using assms ne by (simp add: defs)
qed

lemma pvt_example_bytes:
  "length pvt_example = 84" "pvt_example ! 21 = 0" "pvt_example ! 22 = 0xE0"
  by (simp_all add: pvt_example_def nth_append)

text \<open>
  Claim C9, at a payload whose \<^verbatim>\<open>flags2\<close> byte has bits 5 to 7 set and whose \<^verbatim>\<open>flags\<close>
  byte is 0: the decoder reports confirmedAvai, confirmedDate and confirmedTime as
  False, where the claim derives them from bits 5 to 7 of \<^verbatim>\<open>flags2\<close>.
\<close>

theorem nav_pvt_confirmed_ignore_flags2:
  "bit (pvt_example ! 22) 5 \<and> bit (pvt_example ! 22) 6 \<and> bit (pvt_example ! 22) 7 \<and>
   field_of (nav_pvt pvt_example) ''confirmedAvai'' = Some (PBool False) \<and>
   field_of (nav_pvt pvt_example) ''confirmedDate'' = Some (PBool False) \<and>
   field_of (nav_pvt pvt_example) ''confirmedTime'' = Some (PBool False)"
proof -
  have h: "84 \<le> length pvt_example" by (simp add: pvt_example_bytes)
  have b: "bit (224 :: byte) 5" "bit (224 :: byte) 6" "bit (224 :: byte) 7"
    by simp_all
  show ?thesis
    using nav_pvt_confirmed_flags [OF h] b by (simp add: pvt_example_bytes)
qed

text \<open>
  Claim C10: for every UBX-NAV-PVT payload of at least 84 bytes the decoded carrSoln is
  the string \<^verbatim>\<open>Fixed\<close> when bit 7 of the flags byte is set and the boolean False
  otherwise; the string \<^verbatim>\<open>Float\<close> is returned for no input, because the second
  assignment to carrSoln overwrites the first.
\<close>

theorem nav_pvt_carrSoln:
  "(84 \<le> length buf \<longrightarrow>
      field_of (nav_pvt buf) ''carrSoln'' =
        Some (if bit (buf ! 21) 7 then PStr ''Fixed'' else PBool False))
   \<and> field_of (nav_pvt buf) ''carrSoln'' \<noteq> Some (PStr ''Float'')"
proof (cases "84 \<le> length buf")
  case True
  then show ?thesis using nav_pvt_carrSoln_value [OF True] by simp
next
  case False
  then show ?thesis by (simp add: nav_pvt_def field_of_def Let_def)
qed

text \<open>A payload with bit 6 (carrier solution float) set in flags still decodes to False.\<close>

theorem nav_pvt_carrSoln_witness:
  "84 \<le> length pvt_float_example \<and> bit (pvt_float_example ! 21) 6 \<and>
   field_of (nav_pvt pvt_float_example) ''carrSoln'' = Some (PBool False)"
proof -
  have h: "length pvt_float_example = 84" "pvt_float_example ! 21 = 0x40"
    by (simp_all add: pvt_float_example_def nth_append)
  have b: "bit (64 :: byte) 6" "\<not> bit (64 :: byte) 7"
    by simp_all
  show ?thesis
    using nav_pvt_carrSoln [of pvt_float_example] b by (simp add: h)
qed

section \<open>Properties of the configuration registry\<close>

lemma cfg_find_append:
  "cfg_find (xs @ ys) key = (case cfg_find xs key of Some i \<Rightarrow> Some i | None \<Rightarrow> cfg_find ys key)"
  by (induction xs) auto

text \<open>The key 0x10000000 is in no part of the registry.\<close>

lemma cfgs_part1_miss: "cfg_find cfgs_part1 0x10000000 = None"
  by (simp add: cfgs_part1_def)

lemma cfgs_part2_miss: "cfg_find cfgs_part2 0x10000000 = None"
  by (simp add: cfgs_part2_def)

lemma cfgs_part3_miss: "cfg_find cfgs_part3 0x10000000 = None"
  by (simp add: cfgs_part3_def)

lemma cfgs_part4_miss: "cfg_find cfgs_part4 0x10000000 = None"
  by (simp add: cfgs_part4_def)

lemma cfgs_part5_miss: "cfg_find cfgs_part5 0x10000000 = None"
  by (simp add: cfgs_part5_def)

lemma cfgs_part6_miss: "cfg_find cfgs_part6 0x10000000 = None"
  by (simp add: cfgs_part6_def)

lemma cfgs_part7_miss: "cfg_find cfgs_part7 0x10000000 = None"
  by (simp add: cfgs_part7_def)

lemma cfgs_part8_miss: "cfg_find cfgs_part8 0x10000000 = None"
  by (simp add: cfgs_part8_def)

lemma cfgs_part9_miss: "cfg_find cfgs_part9 0x10000000 = None"
  by (simp add: cfgs_part9_def)

lemma cfgs_part10_miss: "cfg_find cfgs_part10 0x10000000 = None"
  by (simp add: cfgs_part10_def)

lemma cfgs_part11_miss: "cfg_find cfgs_part11 0x10000000 = None"
  by (simp add: cfgs_part11_def)

lemma cfgs_part12_miss: "cfg_find cfgs_part12 0x10000000 = None"
  by (simp add: cfgs_part12_def)

lemma cfgs_part13_miss: "cfg_find cfgs_part13 0x10000000 = None"
  by (simp add: cfgs_part13_def)

lemma cfgs_part14_miss: "cfg_find cfgs_part14 0x10000000 = None"
  by (simp add: cfgs_part14_def)

lemma cfgs_part15_miss: "cfg_find cfgs_part15 0x10000000 = None"
  by (simp add: cfgs_part15_def)

lemma cfgs_part16_miss: "cfg_find cfgs_part16 0x10000000 = None"
  by (simp add: cfgs_part16_def)

lemmas cfgs_miss =
  cfgs_part1_miss cfgs_part2_miss cfgs_part3_miss cfgs_part4_miss
  cfgs_part5_miss cfgs_part6_miss cfgs_part7_miss cfgs_part8_miss
  cfgs_part9_miss cfgs_part10_miss cfgs_part11_miss cfgs_part12_miss
  cfgs_part13_miss cfgs_part14_miss cfgs_part15_miss cfgs_part16_miss

text \<open>
  Claim C3, at the key 0x10000000, which is not in the registry (size class 1): the
  lookup raises \<^verbatim>\<open>NameError\<close> where the claim promises a synthesized item.
\<close>

theorem cfg_by_key_unknown_raises:
  "cfg_by_key 0x10000000 = Inl (NameError ''ket'')"
  by (simp add: cfg_by_key_def cfgs_def cfg_find_append cfgs_miss)

end
